theory Spec2Isabelle
  imports Complex_Main
begin

section \<open>Kaggle to S3 ingestion pipeline: a shallow embedding\<close>

text \<open>
  The development follows \<^verbatim>\<open>scripts/kaggle_to_s3_ingestion.py\<close>. Every call that
  leaves the program (the clock, pandas, boto3, requests, zipfile, the file system) is a
  field of the record \<open>env\<close>: a fixed but arbitrary description of how the outside
  world answers during one run. What the program changes outside itself is collected in
  the record \<open>world\<close>, which is threaded through every function together with the
  \<open>summary\<close> object. Printing is left out: it changes neither of them.
\<close>

subsection \<open>Exceptions\<close>

text \<open>
  The exception classes the source distinguishes. \<open>ClientError\<close> and
  \<open>RequestException\<close> are subclasses of \<open>Exception\<close>; the constructor
  \<open>Exception\<close> stands for every other subclass of it (a pandas parser error, a
  \<open>KeyError\<close>, an \<open>OSError\<close>); \<open>KeyboardInterrupt\<close> is not an
  \<open>Exception\<close>. Each carries the text that \<open>str(e)\<close> gives.
\<close>

datatype exn =
    ClientError string
  | RequestException string
  | Exception string
  | KeyboardInterrupt

fun isinstance_Exception :: "exn \<Rightarrow> bool" where
  "isinstance_Exception KeyboardInterrupt = False"
| "isinstance_Exception _ = True"

fun str_of_exn :: "exn \<Rightarrow> string" where
  "str_of_exn (ClientError m) = m"
| "str_of_exn (RequestException m) = m"
| "str_of_exn (Exception m) = m"
| "str_of_exn KeyboardInterrupt = []"

subsection \<open>Values of the libraries\<close>

text \<open>A naive \<open>datetime\<close> of the standard library, in microseconds.\<close>

type_synonym datetime = int

text \<open>
  A pandas \<open>Timestamp\<close>: the instant in nanoseconds (UTC when a zone is attached,
  wall clock otherwise) and the zone's offset, \<open>None\<close> for a naive value.
\<close>

datatype timestamp = Timestamp (ts_ns: int) (ts_offset: "int option")

text \<open>
  A datetime column of pandas, as \<open>pd.to_datetime\<close> gives it for the cells of one
  chunk: one zone for the whole column (\<open>None\<close> for a naive column) and, for the
  row at each position, its instant in nanoseconds or NaT (\<open>None\<close>). Cells that
  pandas cannot join in one datetime column, such as texts with different offsets, are
  no value of this type: for them the conversion, or the \<open>.dt\<close> accessor after
  it, raises.
\<close>

datatype column = Column (col_zone: "int option") (col_stamp: "nat \<Rightarrow> int option")

text \<open>
  \<open>.dt.tz_localize(None)\<close>: the zone is removed and the local wall-clock fields
  are kept; a naive value is returned as it is.
\<close>

fun tz_localize_None :: "timestamp \<Rightarrow> int" where
  "tz_localize_None (Timestamp v None) = v"
| "tz_localize_None (Timestamp v (Some off)) = v + off"

text \<open>A Python number that is an \<open>int\<close> or a \<open>float\<close> (idealised as a rational).\<close>

datatype pynum = PyInt int | PyFloat rat

definition round_half_even :: "rat \<Rightarrow> int" where
  "round_half_even q =
     (let f = \<lfloor>q\<rfloor>; d = q - of_int f
      in if d < 1 / 2 then f
         else if 1 / 2 < d then f + 1
         else if even f then f else f + 1)"

text \<open>\<open>round(x, 2)\<close>: an \<open>int\<close> is returned unchanged.\<close>

fun round2 :: "pynum \<Rightarrow> pynum" where
  "round2 (PyInt i) = PyInt i"
| "round2 (PyFloat q) = PyFloat (of_int (round_half_even (q * 100)) / 100)"

text \<open>What \<open>json.dump\<close> receives.\<close>

datatype json =
    JNull
  | JInt int
  | JFloat rat
  | JStr string
  | JList "json list"
  | JDict "(string \<times> json) list"

fun json_of_pynum :: "pynum \<Rightarrow> json" where
  "json_of_pynum (PyInt i) = JInt i"
| "json_of_pynum (PyFloat q) = JFloat q"

subsection \<open>The source file as pandas reads it\<close>

text \<open>
  With \<open>dtype=str\<close> a row maps column names to text; an empty cell (NaN) has no
  entry. \<open>Bad m\<close> is a physical line on which the pandas parser raises with
  message \<open>m\<close> (\<open>on_bad_lines\<close> keeps its default).
\<close>

type_synonym row = "(string \<times> string) list"

datatype line = Row row | Bad string

record csv_file =
  csv_header :: "string list"
  csv_lines :: "line list"

text \<open>What one step of the iterator \<open>pd.read_csv(..., chunksize=N)\<close> gives.\<close>

datatype chunk_event = Chunk "string list" "row list" | ReadRaises exn

fun parse_lines :: "line list \<Rightarrow> exn + row list" where
  "parse_lines [] = Inr []"
| "parse_lines (Bad m # ls) = Inl (Exception m)"
| "parse_lines (Row r # ls) =
     (case parse_lines ls of Inl e \<Rightarrow> Inl e | Inr rs \<Rightarrow> Inr (r # rs))"

function chunk_events :: "nat \<Rightarrow> string list \<Rightarrow> line list \<Rightarrow> chunk_event list" where
  "chunk_events n hdr ls =
     (if n = 0 \<or> ls = [] then []
      else (case parse_lines (take n ls) of
              Inl e \<Rightarrow> [ReadRaises e]
            | Inr rs \<Rightarrow> Chunk hdr rs # chunk_events n hdr (drop n ls)))"
  by pat_completeness auto
termination
  by (relation "measure (\<lambda>(n, hdr, ls). length ls)") auto

declare chunk_events.simps [simp del]

text \<open>
  \<open>pd.read_csv(path, chunksize=N, dtype=str, low_memory=False)\<close>: batches of
  \<open>N\<close> rows in source order, read lazily; a chunk size below one is refused by
  pandas with a \<open>ValueError\<close>.
\<close>

definition read_csv :: "int \<Rightarrow> csv_file \<Rightarrow> chunk_event list" where
  "read_csv chunksize f =
     (if chunksize < 1 then [ReadRaises (Exception ''chunksize must be an integer >=1'')]
      else chunk_events (nat chunksize) (csv_header f) (csv_lines f))"

subsection \<open>Config\<close>

record config =
  KAGGLE_USERNAME :: "string option"
  KAGGLE_KEY :: "string option"
  AWS_ACCESS_KEY :: "string option"
  AWS_SECRET_KEY :: "string option"
  AWS_REGION :: string
  S3_BUCKET :: string
  S3_PREFIX :: string
  CHUNK_ROWS :: int
  ZIP_PATH :: string
  EXTRACTED_CSV :: string
  SUMMARY_FILE :: string

text \<open>\<open>not value\<close> for a value of \<open>os.getenv\<close>: unset or empty.\<close>

fun falsy :: "string option \<Rightarrow> bool" where
  "falsy None = True"
| "falsy (Some v) = (v = [])"

definition validate :: "config \<Rightarrow> bool" where
  "validate cfg =
     (let required = [(''KAGGLE_USERNAME'', KAGGLE_USERNAME cfg), (''KAGGLE_KEY'', KAGGLE_KEY cfg)];
          missing = map fst (filter (\<lambda>(k, v). falsy v) required)
      in if missing \<noteq> [] then False else True)"

subsection \<open>The outside world\<close>

type_synonym frame_row = "row \<times> timestamp option"

record s3_call =
  call_file :: string
  call_body :: "frame_row list"
  call_bucket :: string
  call_key :: string

type_synonym upload_log = "(s3_call \<times> exn option) list"

record env =
  utcnow :: "nat \<Rightarrow> datetime"
  isoformat :: "datetime \<Rightarrow> string"
  to_datetime :: "string option list \<Rightarrow> exn + column"
  to_csv :: "string \<Rightarrow> frame_row list \<Rightarrow> exn option"
  upload_file :: "upload_log \<Rightarrow> s3_call \<Rightarrow> exn option"
  os_remove :: "string \<Rightarrow> exn option"
  boto3_client :: "bool \<Rightarrow> exn option"
  head_bucket :: "exn option"
  requests_get :: "exn + nat"
  zip_namelist :: "exn + string list"
  zip_extract :: "string \<Rightarrow> exn option"
  extracted :: csv_file
  remove_files :: "nat \<Rightarrow> exn option"
  write_file :: "nat \<Rightarrow> exn option"

text \<open>
  The world keeps, next to the upload calls, the partition files written by
  \<open>chunk.to_csv\<close> (name, rows, outcome) and the calls of \<open>os.remove\<close> on them.
\<close>

record world =
  clock_reads :: nat
  chunks_read :: nat
  csv_writes :: "(string \<times> frame_row list \<times> exn option) list"
  uploads :: upload_log
  removals :: "(string \<times> exn option) list"
  cleanups :: nat
  saves :: nat
  summary_file :: "json option"

definition now :: "env \<Rightarrow> world \<Rightarrow> datetime \<times> world" where
  "now e w = (utcnow e (clock_reads w), w\<lparr>clock_reads := Suc (clock_reads w)\<rparr>)"

subsection \<open>Summary\<close>

record summary =
  start_time :: datetime
  end_time :: "datetime option"
  status :: string
  total_rows :: int
  files_uploaded :: "string list"
  errors :: "(string \<times> string) list"
  download_size_mb :: pynum

definition Summary_init :: "env \<Rightarrow> world \<Rightarrow> summary \<times> world" where
  "Summary_init e w =
     (let (t, w') = now e w
      in (\<lparr>start_time = t, end_time = None, status = ''running'', total_rows = 0,
           files_uploaded = [], errors = [], download_size_mb = PyInt 0\<rparr>, w'))"

definition complete :: "env \<Rightarrow> bool \<Rightarrow> summary \<Rightarrow> world \<Rightarrow> summary \<times> world" where
  "complete e success s w =
     (let (t, w') = now e w
      in (s\<lparr>end_time := Some t, status := (if success then ''success'' else ''failed'')\<rparr>, w'))"

text \<open>An error entry is the pair of its \<open>timestamp\<close> and \<open>error\<close> fields.\<close>

definition add_error :: "env \<Rightarrow> string \<Rightarrow> summary \<Rightarrow> world \<Rightarrow> summary \<times> world" where
  "add_error e error s w =
     (let (t, w') = now e w
      in (s\<lparr>errors := errors s @ [(isoformat e t, error)]\<rparr>, w'))"

definition to_dict :: "env \<Rightarrow> config \<Rightarrow> summary \<Rightarrow> json" where
  "to_dict e cfg s =
     (let duration = (case end_time s of
                        Some t \<Rightarrow> PyFloat (of_int (t - start_time s) / 1000000)
                      | None \<Rightarrow> PyInt 0)
      in JDict
        [(''status'', JStr (status s)),
         (''start_time'', JStr (isoformat e (start_time s))),
         (''end_time'', (case end_time s of Some t \<Rightarrow> JStr (isoformat e t) | None \<Rightarrow> JNull)),
         (''duration_seconds'', json_of_pynum (round2 duration)),
         (''total_rows_processed'', JInt (total_rows s)),
         (''files_uploaded'', JInt (int (length (files_uploaded s)))),
         (''file_list'', JList (map JStr (files_uploaded s))),
         (''download_size_mb'', json_of_pynum (round2 (download_size_mb s))),
         (''errors'', JList (map (\<lambda>(t, m). JDict [(''timestamp'', JStr t), (''error'', JStr m)])
                                (errors s))),
         (''configuration'', JDict
            [(''s3_bucket'', JStr (S3_BUCKET cfg)),
             (''s3_prefix'', JStr (S3_PREFIX cfg)),
             (''chunk_size'', JInt (CHUNK_ROWS cfg)),
             (''aws_region'', JStr (AWS_REGION cfg))])])"

text \<open>
  \<open>save\<close>: the file is opened for writing and the document dumped into it. When the
  write raises, no complete document is left in the file.
\<close>

definition save :: "env \<Rightarrow> config \<Rightarrow> summary \<Rightarrow> world \<Rightarrow> exn option \<times> world" where
  "save e cfg s w =
     (let r = write_file e (saves w);
          w' = w\<lparr>saves := Suc (saves w)\<rparr>
      in case r of
           None \<Rightarrow> (None, w'\<lparr>summary_file := Some (to_dict e cfg s)\<rparr>)
         | Some x \<Rightarrow> (Some x, w'\<lparr>summary_file := None\<rparr>))"

subsection \<open>process\_and\_upload\_data\<close>

definition cutoff_date :: int where
  "cutoff_date = 20472 * 86400 * 1000000000"

text \<open>
  Line 249 and the accessor of line 252: the column of the chunk is converted as a
  whole (\<open>errors='coerce'\<close> turns a cell that fails into NaT, here \<open>None\<close>),
  and the value of every row carries the one zone of the column. When pandas gives no
  datetime column the exception is the result. The comparison of the mask at line 252
  is \<open>keep_row\<close>, which is false on NaT.
\<close>

definition parse_published_at :: "env \<Rightarrow> row list \<Rightarrow> exn + frame_row list" where
  "parse_published_at e rows =
     (case to_datetime e (map (\<lambda>r. map_of r ''video_published_at'') rows) of
        Inl x \<Rightarrow> Inl x
      | Inr col \<Rightarrow>
          Inr (map (\<lambda>(i, r). (r, map_option (\<lambda>v. Timestamp v (col_zone col)) (col_stamp col i)))
                 (enumerate 0 rows)))"

fun keep_row :: "frame_row \<Rightarrow> bool" where
  "keep_row (r, None) = False"
| "keep_row (r, Some t) = (cutoff_date \<le> tz_localize_None t)"

definition digit_char :: "nat \<Rightarrow> char" where
  "digit_char d = ''0123456789'' ! d"

fun str_nat :: "nat \<Rightarrow> string" where
  "str_nat n = (if n < 10 then [digit_char n] else str_nat (n div 10) @ [digit_char (n mod 10)])"

declare str_nat.simps [simp del]

text \<open>The format \<open>{:04d}\<close> of a number that is not negative.\<close>

definition format_04d :: "nat \<Rightarrow> string" where
  "format_04d n = replicate (4 - length (str_nat n)) (CHR ''0'') @ str_nat n"

definition temp_file_of :: "nat \<Rightarrow> string" where
  "temp_file_of part_number = ''part_'' @ format_04d part_number @ ''.csv''"

definition s3_key_of :: "config \<Rightarrow> nat \<Rightarrow> string" where
  "s3_key_of cfg part_number = S3_PREFIX cfg @ temp_file_of part_number"

definition s3_url_of :: "config \<Rightarrow> nat \<Rightarrow> string" where
  "s3_url_of cfg part_number = ''s3://'' @ S3_BUCKET cfg @ ''/'' @ s3_key_of cfg part_number"

type_synonym result = "(exn + bool) \<times> summary \<times> world"

text \<open>
  The handler at lines 287 to 291; an exception that is not an \<open>Exception\<close>
  leaves the function.
\<close>

definition processing_failed :: "env \<Rightarrow> exn \<Rightarrow> summary \<Rightarrow> world \<Rightarrow> result" where
  "processing_failed e x s w =
     (if isinstance_Exception x
      then (let (s', w') = add_error e (''Processing failed: '' @ str_of_exn x) s w
            in (Inr False, s', w'))
      else (Inl x, s, w))"

text \<open>
  What follows a raising \<open>upload_file\<close>: the handler at lines 273 to 278 for a
  \<open>ClientError\<close>, the outer handler for anything else. The \<open>os.remove\<close> of
  line 277 is inside the outer \<open>try\<close>: when it raises, the outer handler runs too.
\<close>

fun upload_raised :: "env \<Rightarrow> string \<Rightarrow> exn \<Rightarrow> summary \<Rightarrow> world \<Rightarrow> result" where
  "upload_raised e temp_file (ClientError m) s w =
     (let (s1, w1) = add_error e (''Upload failed for '' @ temp_file @ '': '' @ m) s w;
          rm = os_remove e temp_file;
          w2 = w1\<lparr>removals := removals w1 @ [(temp_file, rm)]\<rparr>
      in case rm of
           None \<Rightarrow> (Inr False, s1, w2)
         | Some y \<Rightarrow> processing_failed e y s1 w2)"
| "upload_raised e temp_file x s w = processing_failed e x s w"

definition KeyError_published_at :: exn where
  "KeyError_published_at = Exception ([CHR 0x27] @ ''video_published_at'' @ [CHR 0x27])"

text \<open>The loop at lines 241 to 281, from the current \<open>part_number\<close>.\<close>

fun for_chunks :: "env \<Rightarrow> config \<Rightarrow> chunk_event list \<Rightarrow> nat \<Rightarrow> summary \<Rightarrow> world \<Rightarrow> result" where
  "for_chunks e cfg [] part_number s w = (Inr True, s, w)"
| "for_chunks e cfg (ReadRaises x # rest) part_number s w = processing_failed e x s w"
| "for_chunks e cfg (Chunk hdr rows # rest) part_number s w =
     (let w1 = w\<lparr>chunks_read := Suc (chunks_read w)\<rparr>
      in if ''video_published_at'' \<notin> set hdr then processing_failed e KeyError_published_at s w1
         else
           case parse_published_at e rows of
             Inl x \<Rightarrow> processing_failed e x s w1
           | Inr frame \<Rightarrow>
               let chunk = filter keep_row frame
               in if length chunk = 0 then for_chunks e cfg rest part_number s w1
                  else
                    let chunk_size = int (length chunk);
                        s1 = s\<lparr>total_rows := total_rows s + chunk_size\<rparr>;
                        temp_file = temp_file_of part_number;
                        wr = to_csv e temp_file chunk;
                        w2 = w1\<lparr>csv_writes := csv_writes w1 @ [(temp_file, chunk, wr)]\<rparr>
                    in case wr of
                         Some x \<Rightarrow> processing_failed e x s1 w2
                       | None \<Rightarrow>
                           let call = \<lparr>call_file = temp_file, call_body = chunk,
                                       call_bucket = S3_BUCKET cfg,
                                       call_key = s3_key_of cfg part_number\<rparr>;
                               r = upload_file e (uploads w2) call;
                               w3 = w2\<lparr>uploads := uploads w2 @ [(call, r)]\<rparr>
                           in case r of
                                Some x \<Rightarrow> upload_raised e temp_file x s1 w3
                              | None \<Rightarrow>
                                  let s2 = s1\<lparr>files_uploaded :=
                                              files_uploaded s1 @ [s3_url_of cfg part_number]\<rparr>;
                                      rm = os_remove e temp_file;
                                      w4 = w3\<lparr>removals := removals w3 @ [(temp_file, rm)]\<rparr>
                                  in case rm of
                                       Some y \<Rightarrow> processing_failed e y s2 w4
                                     | None \<Rightarrow> for_chunks e cfg rest (part_number + 1) s2 w4)"

definition process_and_upload_data :: "env \<Rightarrow> config \<Rightarrow> summary \<Rightarrow> world \<Rightarrow> result" where
  "process_and_upload_data e cfg s w =
     for_chunks e cfg (read_csv (CHUNK_ROWS cfg) (extracted e)) 1 s w"

subsection \<open>The steps before processing\<close>

text \<open>
  \<open>initialize_s3_client\<close>: the client is built with explicit credentials when both
  are set, from the default chain otherwise; building it may raise.
\<close>

definition initialize_s3_client :: "env \<Rightarrow> config \<Rightarrow> exn option" where
  "initialize_s3_client e cfg =
     (if \<not> falsy (AWS_ACCESS_KEY cfg) \<and> \<not> falsy (AWS_SECRET_KEY cfg)
      then boto3_client e True
      else boto3_client e False)"

text \<open>
  \<open>verify_s3_access\<close>: a \<open>ClientError\<close> of \<open>head_bucket\<close> is reported and
  gives \<open>False\<close>, whatever its code; any other exception leaves the function.
\<close>

fun verify_s3_access_result :: "exn option \<Rightarrow> exn + bool" where
  "verify_s3_access_result None = Inr True"
| "verify_s3_access_result (Some (ClientError m)) = Inr False"
| "verify_s3_access_result (Some x) = Inl x"

definition verify_s3_access :: "env \<Rightarrow> exn + bool" where
  "verify_s3_access e = verify_s3_access_result (head_bucket e)"

text \<open>
  \<open>download_kaggle_dataset\<close>: the request and the copy into the archive file either
  end with a number of bytes or raise; only a \<open>RequestException\<close> is handled.
\<close>

fun download_raised :: "env \<Rightarrow> exn \<Rightarrow> summary \<Rightarrow> world \<Rightarrow> result" where
  "download_raised e (RequestException m) s w =
     (let (s', w') = add_error e (''Download failed: '' @ m) s w in (Inr False, s', w'))"
| "download_raised e x s w = (Inl x, s, w)"

definition download_kaggle_dataset :: "env \<Rightarrow> summary \<Rightarrow> world \<Rightarrow> result" where
  "download_kaggle_dataset e s w =
     (case requests_get e of
        Inr downloaded \<Rightarrow>
          (Inr True, s\<lparr>download_size_mb := PyFloat (of_nat downloaded / (1024 * 1024))\<rparr>, w)
      | Inl x \<Rightarrow> download_raised e x s w)"

definition endswith_csv :: "string \<Rightarrow> bool" where
  "endswith_csv f = (drop (length f - 4) f = ''.csv'')"

definition extraction_failed :: "env \<Rightarrow> exn \<Rightarrow> summary \<Rightarrow> world \<Rightarrow> result" where
  "extraction_failed e x s w =
     (if isinstance_Exception x
      then (let (s', w') = add_error e (''Extraction failed: '' @ str_of_exn x) s w
            in (Inr False, s', w'))
      else (Inl x, s, w))"

definition extract_csv_from_zip :: "env \<Rightarrow> summary \<Rightarrow> world \<Rightarrow> result" where
  "extract_csv_from_zip e s w =
     (case zip_namelist e of
        Inl x \<Rightarrow> extraction_failed e x s w
      | Inr names \<Rightarrow>
          (let csv_files = filter endswith_csv names
           in if csv_files = []
              then (let (s', w') = add_error e ''No CSV file found in archive'' s w
                    in (Inr False, s', w'))
              else (case zip_extract e (hd csv_files) of
                      None \<Rightarrow> (Inr True, s, w)
                    | Some x \<Rightarrow> extraction_failed e x s w)))"

definition cleanup_files :: "env \<Rightarrow> world \<Rightarrow> exn option \<times> world" where
  "cleanup_files e w = (remove_files e (cleanups w), w\<lparr>cleanups := Suc (cleanups w)\<rparr>)"

subsection \<open>main\<close>

text \<open>
  How the process ends: \<open>sys.exit\<close> with a code, or an exception that nothing
  handles.
\<close>

datatype exit = Exit int | Uncaught exn

text \<open>
  The body of the \<open>try\<close> block gives \<open>Inr code\<close> when it reaches
  \<open>sys.exit(code)\<close> (a \<open>SystemExit\<close>, which neither handler catches) and
  \<open>Inl x\<close> when \<open>x\<close> is raised in it.
\<close>

type_synonym body_result = "(exn + int) \<times> summary \<times> world"

text \<open>\<open>complete\<close>, \<open>save\<close>, \<open>sys.exit\<close>: lines 316 to 318 and 328 to 330.\<close>

definition complete_save_exit :: "env \<Rightarrow> config \<Rightarrow> summary \<Rightarrow> world \<Rightarrow> body_result" where
  "complete_save_exit e cfg s w =
     (let (s1, w1) = complete e False s w;
          (r, w2) = save e cfg s1 w1
      in case r of Some x \<Rightarrow> (Inl x, s1, w2) | None \<Rightarrow> (Inr 1, s1, w2))"

text \<open>Lines 342 to 367, once \<open>success\<close> is known.\<close>

definition finish :: "env \<Rightarrow> config \<Rightarrow> bool \<Rightarrow> summary \<Rightarrow> world \<Rightarrow> body_result" where
  "finish e cfg success s w =
     (case cleanup_files e w of
        (Some x, w1) \<Rightarrow> (Inl x, s, w1)
      | (None, w1) \<Rightarrow>
          (let (s2, w2) = complete e success s w1;
               (r, w3) = save e cfg s2 w2
           in case r of
                Some x \<Rightarrow> (Inl x, s2, w3)
              | None \<Rightarrow> (Inr (if success then 0 else 1), s2, w3)))"

text \<open>Lines 332 to 340: the three steps, each run only when the one before returned true.\<close>

definition execute_pipeline :: "env \<Rightarrow> config \<Rightarrow> summary \<Rightarrow> world \<Rightarrow> result" where
  "execute_pipeline e cfg s w =
     (case download_kaggle_dataset e s w of
        (Inr True, s1, w1) \<Rightarrow>
          (case extract_csv_from_zip e s1 w1 of
             (Inr True, s2, w2) \<Rightarrow> process_and_upload_data e cfg s2 w2
           | other \<Rightarrow> other)
      | other \<Rightarrow> other)"

definition main_body :: "env \<Rightarrow> config \<Rightarrow> summary \<Rightarrow> world \<Rightarrow> body_result" where
  "main_body e cfg s w =
     (if \<not> validate cfg then complete_save_exit e cfg s w
      else case initialize_s3_client e cfg of
             Some x \<Rightarrow> (Inl x, s, w)
           | None \<Rightarrow>
               (case verify_s3_access e of
                  Inl x \<Rightarrow> (Inl x, s, w)
                | Inr False \<Rightarrow>
                    (let (s1, w1) = add_error e ''S3 bucket not accessible'' s w
                     in complete_save_exit e cfg s1 w1)
                | Inr True \<Rightarrow>
                    (case execute_pipeline e cfg s w of
                       (Inl x, s1, w1) \<Rightarrow> (Inl x, s1, w1)
                     | (Inr success, s1, w1) \<Rightarrow> finish e cfg success s1 w1)))"

text \<open>The two handlers at lines 369 to 383 differ in the message only.\<close>

definition handler_message :: "exn \<Rightarrow> string" where
  "handler_message x =
     (if x = KeyboardInterrupt then ''Pipeline interrupted by user''
      else ''Unexpected error: '' @ str_of_exn x)"

definition handler :: "env \<Rightarrow> config \<Rightarrow> exn \<Rightarrow> summary \<Rightarrow> world \<Rightarrow> exit \<times> summary \<times> world" where
  "handler e cfg x s w =
     (let (s1, w1) = add_error e (handler_message x) s w;
          (s2, w2) = complete e False s1 w1
      in case cleanup_files e w2 of
           (Some y, w3) \<Rightarrow> (Uncaught y, s2, w3)
         | (None, w3) \<Rightarrow>
             (case save e cfg s2 w3 of
                (Some y, w4) \<Rightarrow> (Uncaught y, s2, w4)
              | (None, w4) \<Rightarrow> (Exit 1, s2, w4)))"

definition world_at_start :: world where
  "world_at_start =
     \<lparr>clock_reads = 0, chunks_read = 0, csv_writes = [], uploads = [], removals = [],
      cleanups = 0, saves = 0, summary_file = None\<rparr>"

definition main :: "env \<Rightarrow> config \<Rightarrow> exit \<times> summary \<times> world" where
  "main e cfg =
     (let (s, w) = Summary_init e world_at_start
      in case main_body e cfg s w of
           (Inr code, s1, w1) \<Rightarrow> (Exit code, s1, w1)
         | (Inl x, s1, w1) \<Rightarrow> handler e cfg x s1 w1)"

section \<open>Reading a run\<close>

text \<open>
  The functions of this section are not part of the program: they name what the
  theorems say about a run.
\<close>

definition outcome_of :: "'a \<times> summary \<times> world \<Rightarrow> 'a" where
  "outcome_of res = fst res"

definition summary_of :: "'a \<times> summary \<times> world \<Rightarrow> summary" where
  "summary_of res = fst (snd res)"

definition world_of :: "'a \<times> summary \<times> world \<Rightarrow> world" where
  "world_of res = snd (snd res)"

text \<open>The upload calls made between two states of the world.\<close>

definition new_uploads :: "world \<Rightarrow> world \<Rightarrow> upload_log" where
  "new_uploads w w' = drop (length (uploads w)) (uploads w')"

text \<open>The calls of a log that returned without raising.\<close>

definition succeeded :: "upload_log \<Rightarrow> s3_call list" where
  "succeeded lg = map fst (filter (\<lambda>cr. snd cr = None) lg)"

definition url_of_call :: "s3_call \<Rightarrow> string" where
  "url_of_call c = ''s3://'' @ call_bucket c @ ''/'' @ call_key c"

text \<open>The number of rows in the bodies of all calls of a log, failed ones included.\<close>

definition body_rows :: "upload_log \<Rightarrow> int" where
  "body_rows lg = sum_list (map (\<lambda>cr. int (length (call_body (fst cr)))) lg)"

text \<open>The partition files written between two states of the world, and their rows.\<close>

definition new_writes :: "world \<Rightarrow> world \<Rightarrow> (string \<times> frame_row list \<times> exn option) list" where
  "new_writes w w' = drop (length (csv_writes w)) (csv_writes w')"

definition written_rows :: "(string \<times> frame_row list \<times> exn option) list \<Rightarrow> int" where
  "written_rows ws = sum_list (map (\<lambda>wr. int (length (fst (snd wr)))) ws)"


text \<open>
  The rows of a chunk that pass lines 249 to 252 (none when the column of the chunk
  does not convert), and the call made for them.
\<close>

definition chunk_of :: "env \<Rightarrow> row list \<Rightarrow> frame_row list" where
  "chunk_of e rows =
     (case parse_published_at e rows of Inl x \<Rightarrow> [] | Inr frame \<Rightarrow> filter keep_row frame)"

definition call_of :: "env \<Rightarrow> config \<Rightarrow> nat \<Rightarrow> row list \<Rightarrow> s3_call" where
  "call_of e cfg pn rows =
     \<lparr>call_file = temp_file_of pn, call_body = chunk_of e rows,
      call_bucket = S3_BUCKET cfg, call_key = s3_key_of cfg pn\<rparr>"




text \<open>The message of the error entry that a raising upload leaves.\<close>

definition upload_error_message :: "s3_call \<Rightarrow> exn \<Rightarrow> string" where
  "upload_error_message c x =
     (case x of
        ClientError m \<Rightarrow> ''Upload failed for '' @ call_file c @ '': '' @ m
      | _ \<Rightarrow> ''Processing failed: '' @ str_of_exn x)"

text \<open>
  What a raising upload leaves, when the clock has been read \<open>k\<close> times: the
  error entries (a second one when the \<open>os.remove\<close> of line 277 raises too) and
  the result of the function.
\<close>

definition after_failed_removal :: "env \<Rightarrow> s3_call \<Rightarrow> nat \<Rightarrow> (string \<times> string) list" where
  "after_failed_removal e c k =
     (case os_remove e (call_file c) of
        None \<Rightarrow> []
      | Some y \<Rightarrow>
          if isinstance_Exception y
          then [(isoformat e (utcnow e (Suc k)), ''Processing failed: '' @ str_of_exn y)]
          else [])"

definition failed_upload_entries :: "env \<Rightarrow> s3_call \<Rightarrow> exn \<Rightarrow> nat \<Rightarrow> (string \<times> string) list" where
  "failed_upload_entries e c x k =
     (case x of
        ClientError m \<Rightarrow>
          (isoformat e (utcnow e k), upload_error_message c x) # after_failed_removal e c k
      | _ \<Rightarrow>
          if isinstance_Exception x
          then [(isoformat e (utcnow e k), upload_error_message c x)] else [])"

definition failed_upload_result :: "env \<Rightarrow> s3_call \<Rightarrow> exn \<Rightarrow> exn + bool" where
  "failed_upload_result e c x =
     (case x of
        ClientError m \<Rightarrow>
          (case os_remove e (call_file c) of
             None \<Rightarrow> Inr False
           | Some y \<Rightarrow> if isinstance_Exception y then Inr False else Inl y)
      | _ \<Rightarrow> if isinstance_Exception x then Inr False else Inl x)"




text \<open>The number of rows that pass the filter, chunk by chunk.\<close>

fun kept_rows :: "env \<Rightarrow> chunk_event list \<Rightarrow> int" where
  "kept_rows e [] = 0"
| "kept_rows e (Chunk hdr rows # evs) = int (length (chunk_of e rows)) + kept_rows e evs"
| "kept_rows e (ReadRaises x # evs) = kept_rows e evs"



section \<open>Scenarios\<close>

text \<open>Concrete runs, on which the theorems below are instantiated.\<close>

definition scenario_config :: config where
  "scenario_config =
     \<lparr>KAGGLE_USERNAME = Some ''user'', KAGGLE_KEY = Some ''key'',
      AWS_ACCESS_KEY = None, AWS_SECRET_KEY = None, AWS_REGION = ''us-east-1'',
      S3_BUCKET = ''bronze-03'', S3_PREFIX = ''final-raw/'', CHUNK_ROWS = 2,
      ZIP_PATH = ''youtube.zip'', EXTRACTED_CSV = ''youtube.csv'',
      SUMMARY_FILE = ''ingestion_summary.json''\<rparr>"

text \<open>
  A reading of single cells that knows three texts: midnight of the cutoff day in UTC,
  one second before it, and a time of the day before the cutoff in UTC whose wall
  clock, at +05:30, is on the cutoff day.
\<close>

definition scenario_cell :: "string option \<Rightarrow> timestamp option" where
  "scenario_cell cell =
     (case cell of
        None \<Rightarrow> None
      | Some t \<Rightarrow>
          map_of
            [(''2026-01-19T00:00:00Z'', Timestamp cutoff_date (Some 0)),
             (''2026-01-18T23:59:59Z'', Timestamp (cutoff_date - 1000000000) (Some 0)),
             (''2026-01-19T02:00:00+05:30'',
                Timestamp (cutoff_date - 12600000000000) (Some 19800000000000))] t)"

text \<open>
  The conversion of a column from this reading: the cells that parse must agree on
  their zone, which becomes the zone of the column; cells with different offsets give
  no datetime column, and the \<open>.dt\<close> accessor raises.
\<close>

definition scenario_to_datetime :: "string option list \<Rightarrow> exn + column" where
  "scenario_to_datetime cells =
     (let ts = map scenario_cell cells;
          stamps = (\<lambda>i. if i < length ts then map_option ts_ns (ts ! i) else None)
      in case remdups (List.map_filter (map_option ts_offset) ts) of
           [] \<Rightarrow> Inr (Column None stamps)
         | [z] \<Rightarrow> Inr (Column z stamps)
         | _ \<Rightarrow> Inl (Exception ''Can only use .dt accessor with datetimelike values''))"

definition row_on_cutoff :: row where
  "row_on_cutoff = [(''video_id'', ''a''), (''video_published_at'', ''2026-01-19T00:00:00Z'')]"

definition row_before_cutoff :: row where
  "row_before_cutoff = [(''video_id'', ''b''), (''video_published_at'', ''2026-01-18T23:59:59Z'')]"

definition row_with_offset :: row where
  "row_with_offset =
     [(''video_id'', ''c''), (''video_published_at'', ''2026-01-19T02:00:00+05:30'')]"

definition row_unparsable :: row where
  "row_unparsable = [(''video_id'', ''d'')]"

text \<open>The two rows above that pass the filter, with the values of their columns.\<close>

definition kept_on_cutoff :: frame_row where
  "kept_on_cutoff = (row_on_cutoff, Some (Timestamp cutoff_date (Some 0)))"

definition kept_with_offset :: frame_row where
  "kept_with_offset =
     (row_with_offset, Some (Timestamp (cutoff_date - 12600000000000) (Some 19800000000000)))"

definition scenario_header :: "string list" where
  "scenario_header = [''video_id'', ''video_published_at'']"

definition scenario_csv :: csv_file where
  "scenario_csv =
     \<lparr>csv_header = scenario_header,
      csv_lines = [Row row_on_cutoff, Row row_before_cutoff, Row row_before_cutoff,
                   Row row_unparsable, Row row_on_cutoff, Row row_on_cutoff,
                   Row row_with_offset]\<rparr>"

text \<open>A run in which every outside call succeeds.\<close>

definition scenario_env :: env where
  "scenario_env =
     \<lparr>utcnow = (\<lambda>k. 1000000 * int k),
      isoformat = (\<lambda>t. str_nat (nat t)),
      to_datetime = scenario_to_datetime,
      to_csv = (\<lambda>f b. None),
      upload_file = (\<lambda>lg c. None),
      os_remove = (\<lambda>f. None),
      boto3_client = (\<lambda>explicit. None),
      head_bucket = None,
      requests_get = Inr 1048576,
      zip_namelist = Inr [''youtube.csv''],
      zip_extract = (\<lambda>f. None),
      extracted = scenario_csv,
      remove_files = (\<lambda>k. None),
      write_file = (\<lambda>k. None)\<rparr>"

text \<open>The second upload is refused; every other outside call succeeds.\<close>

definition second_upload_fails_env :: env where
  "second_upload_fails_env =
     scenario_env\<lparr>upload_file :=
       (\<lambda>lg c. if length lg = 1 then Some (ClientError ''AccessDenied'') else None)\<rparr>"

text \<open>
  The second upload is refused, and the partition file of that upload cannot be
  removed afterwards.
\<close>

definition upload_and_remove_fail_env :: env where
  "upload_and_remove_fail_env =
     second_upload_fails_env\<lparr>os_remove :=
       (\<lambda>f. if f = ''part_0002.csv'' then Some (Exception ''Permission denied'') else None)\<rparr>"

text \<open>The second partition file cannot be written.\<close>

definition second_write_fails_env :: env where
  "second_write_fails_env =
     scenario_env\<lparr>to_csv :=
       (\<lambda>f b. if f = ''part_0002.csv'' then Some (Exception ''No space left on device'')
              else None)\<rparr>"

text \<open>
  A source of two rows, each accepted on its own, whose cells have different offsets;
  and the configuration that reads it one row at a time.
\<close>

definition mixed_csv :: csv_file where
  "mixed_csv =
     \<lparr>csv_header = scenario_header, csv_lines = [Row row_on_cutoff, Row row_with_offset]\<rparr>"


definition one_row_config :: config where
  "one_row_config = scenario_config\<lparr>CHUNK_ROWS := 1\<rparr>"

text \<open>A source whose fourth line is malformed.\<close>

definition malformed_csv :: csv_file where
  "malformed_csv =
     \<lparr>csv_header = scenario_header,
      csv_lines = [Row row_on_cutoff, Row row_before_cutoff, Row row_with_offset,
                   Bad ''Expected 2 fields in line 5, saw 3'', Row row_on_cutoff]\<rparr>"

definition malformed_env :: env where
  "malformed_env = scenario_env\<lparr>extracted := malformed_csv\<rparr>"

text \<open>
  The archive file cannot be opened for writing, so that the download raises an
  \<open>OSError\<close>, and it cannot be removed either.
\<close>

definition stuck_files_env :: env where
  "stuck_files_env =
     scenario_env\<lparr>requests_get := Inl (Exception ''Permission denied''),
                  remove_files := (\<lambda>k. Some (Exception ''Operation not permitted''))\<rparr>"

text \<open>Every outside call succeeds, except that the summary file cannot be written.\<close>

definition full_disk_env :: env where
  "full_disk_env =
     scenario_env\<lparr>write_file := (\<lambda>k. Some (Exception ''No space left on device''))\<rparr>"

definition start_of :: "env \<Rightarrow> summary \<times> world" where
  "start_of e = Summary_init e world_at_start"


text \<open>
  Steps that leave the delivered list, the row total, the logs of the loop and the
  count of chunks as they were.
\<close>

definition same_deliveries :: "summary \<Rightarrow> world \<Rightarrow> summary \<Rightarrow> world \<Rightarrow> bool" where
  "same_deliveries s w s' w' =
     (files_uploaded s' = files_uploaded s \<and> total_rows s' = total_rows s \<and>
      uploads w' = uploads w \<and> csv_writes w' = csv_writes w \<and>
      chunks_read w' = chunks_read w)"

text \<open>
  The process exits with code \<open>c\<close> after a summary finalised with
  \<open>success = b\<close> was written to its file.
\<close>

definition exits_saved :: "env \<Rightarrow> config \<Rightarrow> bool \<Rightarrow> summary \<Rightarrow> world \<Rightarrow> int \<Rightarrow> bool" where
  "exits_saved e cfg b s w c =
     (c = (if b then 0 else 1) \<and> status s = (if b then ''success'' else ''failed'') \<and>
      end_time s \<noteq> None \<and> summary_file w = Some (to_dict e cfg s))"

text \<open>An exception that a call of \<open>cleanup_files\<close> or of \<open>save\<close> raises.\<close>

definition raised_by_cleanup_or_save :: "env \<Rightarrow> exn \<Rightarrow> bool" where
  "raised_by_cleanup_or_save e x =
     ((\<exists>k. remove_files e k = Some x) \<or> (\<exists>k. write_file e k = Some x))"

text \<open>Reading a decimal numeral back, to tell part numbers apart by their text.\<close>

definition digit_value :: "char \<Rightarrow> nat" where
  "digit_value c = of_char c - 48"

definition decimal_value :: "string \<Rightarrow> nat" where
  "decimal_value ds = foldl (\<lambda>a c. 10 * a + digit_value c) 0 ds"

text \<open>The number of rows in the bodies of the calls that succeeded.\<close>

definition delivered_rows :: "upload_log \<Rightarrow> int" where
  "delivered_rows lg = sum_list (map (\<lambda>c. int (length (call_body c))) (succeeded lg))"


section \<open>The loop, step by step\<close>

lemma add_error_eq:
  "add_error e m s w =
     (s\<lparr>errors := errors s @ [(isoformat e (utcnow e (clock_reads w)), m)]\<rparr>,
      w\<lparr>clock_reads := Suc (clock_reads w)\<rparr>)"
  by (simp add: add_error_def now_def)

lemma complete_eq:
  "complete e b s w =
     (s\<lparr>end_time := Some (utcnow e (clock_reads w)),
        status := (if b then ''success'' else ''failed'')\<rparr>,
      w\<lparr>clock_reads := Suc (clock_reads w)\<rparr>)"
  by (simp add: complete_def now_def)

lemma processing_failed_eq:
  "processing_failed e x s w =
     (if isinstance_Exception x
      then (Inr False,
            s\<lparr>errors := errors s @ [(isoformat e (utcnow e (clock_reads w)),
                                      ''Processing failed: '' @ str_of_exn x)]\<rparr>,
            w\<lparr>clock_reads := Suc (clock_reads w)\<rparr>)
      else (Inl x, s, w))"
  by (simp add: processing_failed_def add_error_eq)

lemma upload_raised_eq:
  "upload_raised e f x s w =
     (case x of
        ClientError m \<Rightarrow>
          (case os_remove e f of
             None \<Rightarrow>
               (Inr False,
                s\<lparr>errors := errors s @ [(isoformat e (utcnow e (clock_reads w)),
                                          ''Upload failed for '' @ f @ '': '' @ m)]\<rparr>,
                w\<lparr>clock_reads := Suc (clock_reads w), removals := removals w @ [(f, None)]\<rparr>)
           | Some y \<Rightarrow>
               processing_failed e y
                 (s\<lparr>errors := errors s @ [(isoformat e (utcnow e (clock_reads w)),
                                           ''Upload failed for '' @ f @ '': '' @ m)]\<rparr>)
                 (w\<lparr>clock_reads := Suc (clock_reads w),
                    removals := removals w @ [(f, Some y)]\<rparr>))
      | _ \<Rightarrow> processing_failed e x s w)"
  by (cases x) (simp_all add: add_error_eq Let_def split: option.splits)

lemma KeyError_is_Exception [simp]: "isinstance_Exception KeyError_published_at"
  by (simp add: KeyError_published_at_def)

text \<open>Where a run stops, only error entries, clock readings and removals are added.\<close>

lemma processing_failed_stop:
  assumes "processing_failed e x s w = (r, s', w')"
  shows "r = (if isinstance_Exception x then Inr False else Inl x) \<and>
    s' = s\<lparr>errors := errors s @
           (if isinstance_Exception x
            then [(isoformat e (utcnow e (clock_reads w)), ''Processing failed: '' @ str_of_exn x)]
            else [])\<rparr> \<and>
    w' = w\<lparr>clock_reads := clock_reads w + (if isinstance_Exception x then 1 else 0)\<rparr>"
  using assms by (auto simp: processing_failed_eq split: if_splits)

lemma upload_raised_stop:
  assumes "upload_raised e (call_file c) x s w = (r, s', w')"
  shows "r = failed_upload_result e c x \<and>
    s' = s\<lparr>errors := errors s @ failed_upload_entries e c x (clock_reads w)\<rparr> \<and>
    w' = w\<lparr>clock_reads := clock_reads w + length (failed_upload_entries e c x (clock_reads w)),
           removals := removals w @
             (case x of ClientError m \<Rightarrow> [(call_file c, os_remove e (call_file c))] | _ \<Rightarrow> [])\<rparr>"
  using assms
  by (cases x)
     (auto simp: upload_raised_eq processing_failed_eq failed_upload_result_def
        failed_upload_entries_def after_failed_removal_def upload_error_message_def
        split: if_splits option.splits)

lemma call_of_simps [simp]:
  "call_file (call_of e cfg pn rows) = temp_file_of pn"
  "call_body (call_of e cfg pn rows) = chunk_of e rows"
  "call_bucket (call_of e cfg pn rows) = S3_BUCKET cfg"
  "call_key (call_of e cfg pn rows) = s3_key_of cfg pn"
  by (simp_all add: call_of_def)

lemma for_chunks_Chunk:
  "for_chunks e cfg (Chunk hdr rows # rest) pn s w =
     (let w1 = w\<lparr>chunks_read := Suc (chunks_read w)\<rparr>;
          chunk = chunk_of e rows;
          f = temp_file_of pn;
          call = call_of e cfg pn rows;
          s1 = s\<lparr>total_rows := total_rows s + int (length chunk)\<rparr>;
          w2 = w1\<lparr>csv_writes := csv_writes w @ [(f, chunk, to_csv e f chunk)]\<rparr>;
          w3 = w2\<lparr>uploads := uploads w @ [(call, upload_file e (uploads w) call)]\<rparr>;
          s2 = s1\<lparr>files_uploaded := files_uploaded s @ [s3_url_of cfg pn]\<rparr>;
          w4 = w3\<lparr>removals := removals w @ [(f, os_remove e f)]\<rparr>
      in if ''video_published_at'' \<notin> set hdr then processing_failed e KeyError_published_at s w1
         else case parse_published_at e rows of
           Inl x \<Rightarrow> processing_failed e x s w1
         | Inr frame \<Rightarrow>
             if chunk = [] then for_chunks e cfg rest pn s w1
             else (case to_csv e f chunk of
                     Some x \<Rightarrow> processing_failed e x s1 w2
                   | None \<Rightarrow>
                       (case upload_file e (uploads w) call of
                          Some x \<Rightarrow> upload_raised e f x s1 w3
                        | None \<Rightarrow>
                            (case os_remove e f of
                               Some y \<Rightarrow> processing_failed e y s2 w4
                             | None \<Rightarrow> for_chunks e cfg rest (Suc pn) s2 w4))))"
  by (auto simp: Let_def chunk_of_def call_of_def split: option.splits sum.splits)

lemma for_chunks_cases [consumes 1, case_names Done ReadRaises KeyError ParseRaised Skip
    WriteRaised UploadRaised RemoveRaised Uploaded]:
  assumes "for_chunks e cfg evs pn s w = (r, s', w')"
  obtains
    "evs = []" "r = Inr True" "s' = s" "w' = w"
  | x rest where "evs = ReadRaises x # rest" "processing_failed e x s w = (r, s', w')"
  | hdr rows rest where "evs = Chunk hdr rows # rest" "''video_published_at'' \<notin> set hdr"
      "processing_failed e KeyError_published_at s (w\<lparr>chunks_read := Suc (chunks_read w)\<rparr>)
         = (r, s', w')"
  | hdr rows rest x where "evs = Chunk hdr rows # rest" "''video_published_at'' \<in> set hdr"
      "parse_published_at e rows = Inl x"
      "processing_failed e x s (w\<lparr>chunks_read := Suc (chunks_read w)\<rparr>) = (r, s', w')"
  | hdr rows rest frame where "evs = Chunk hdr rows # rest" "''video_published_at'' \<in> set hdr"
      "parse_published_at e rows = Inr frame" "chunk_of e rows = []"
      "for_chunks e cfg rest pn s (w\<lparr>chunks_read := Suc (chunks_read w)\<rparr>) = (r, s', w')"
  | hdr rows rest frame x where "evs = Chunk hdr rows # rest"
      "''video_published_at'' \<in> set hdr"
      "parse_published_at e rows = Inr frame" "chunk_of e rows \<noteq> []"
      "to_csv e (temp_file_of pn) (chunk_of e rows) = Some x"
      "processing_failed e x
         (s\<lparr>total_rows := total_rows s + int (length (chunk_of e rows))\<rparr>)
         (w\<lparr>chunks_read := Suc (chunks_read w),
            csv_writes := csv_writes w @ [(temp_file_of pn, chunk_of e rows, Some x)]\<rparr>)
         = (r, s', w')"
  | hdr rows rest frame x where "evs = Chunk hdr rows # rest"
      "''video_published_at'' \<in> set hdr"
      "parse_published_at e rows = Inr frame" "chunk_of e rows \<noteq> []"
      "to_csv e (temp_file_of pn) (chunk_of e rows) = None"
      "upload_file e (uploads w) (call_of e cfg pn rows) = Some x"
      "upload_raised e (temp_file_of pn) x
         (s\<lparr>total_rows := total_rows s + int (length (chunk_of e rows))\<rparr>)
         (w\<lparr>chunks_read := Suc (chunks_read w),
            csv_writes := csv_writes w @ [(temp_file_of pn, chunk_of e rows, None)],
            uploads := uploads w @ [(call_of e cfg pn rows, Some x)]\<rparr>) = (r, s', w')"
  | hdr rows rest frame y where "evs = Chunk hdr rows # rest"
      "''video_published_at'' \<in> set hdr"
      "parse_published_at e rows = Inr frame" "chunk_of e rows \<noteq> []"
      "to_csv e (temp_file_of pn) (chunk_of e rows) = None"
      "upload_file e (uploads w) (call_of e cfg pn rows) = None"
      "os_remove e (temp_file_of pn) = Some y"
      "processing_failed e y
         (s\<lparr>total_rows := total_rows s + int (length (chunk_of e rows)),
            files_uploaded := files_uploaded s @ [s3_url_of cfg pn]\<rparr>)
         (w\<lparr>chunks_read := Suc (chunks_read w),
            csv_writes := csv_writes w @ [(temp_file_of pn, chunk_of e rows, None)],
            uploads := uploads w @ [(call_of e cfg pn rows, None)],
            removals := removals w @ [(temp_file_of pn, Some y)]\<rparr>) = (r, s', w')"
  | hdr rows rest frame where "evs = Chunk hdr rows # rest"
      "''video_published_at'' \<in> set hdr"
      "parse_published_at e rows = Inr frame" "chunk_of e rows \<noteq> []"
      "to_csv e (temp_file_of pn) (chunk_of e rows) = None"
      "upload_file e (uploads w) (call_of e cfg pn rows) = None"
      "os_remove e (temp_file_of pn) = None"
      "for_chunks e cfg rest (Suc pn)
         (s\<lparr>total_rows := total_rows s + int (length (chunk_of e rows)),
            files_uploaded := files_uploaded s @ [s3_url_of cfg pn]\<rparr>)
         (w\<lparr>chunks_read := Suc (chunks_read w),
            csv_writes := csv_writes w @ [(temp_file_of pn, chunk_of e rows, None)],
            uploads := uploads w @ [(call_of e cfg pn rows, None)],
            removals := removals w @ [(temp_file_of pn, None)]\<rparr>) = (r, s', w')"
proof (cases evs)
  case Nil
  with assms that(1) show ?thesis by simp
next
  case (Cons ev rest)
  show ?thesis
  proof (cases ev)
    case (ReadRaises x)
    with Cons assms that(2) show ?thesis by simp
  next
    case (Chunk hdr rows)
    with Cons assms have run: "for_chunks e cfg (Chunk hdr rows # rest) pn s w = (r, s', w')"
      by simp
    note ev = Cons[unfolded Chunk]
    show ?thesis
    proof (cases "''video_published_at'' \<in> set hdr")
      case False
      with run that(3)[OF ev] show ?thesis
        by (simp add: for_chunks_Chunk Let_def del: for_chunks.simps)
    next
      case col: True
      show ?thesis
      proof (cases "parse_published_at e rows")
        case (Inl x)
        with col run that(4)[OF ev col Inl] show ?thesis
          by (simp add: for_chunks_Chunk Let_def del: for_chunks.simps)
      next
        case (Inr frame)
        show ?thesis
        proof (cases "chunk_of e rows = []")
          case True
          with col Inr run that(5)[OF ev col Inr True] show ?thesis
            by (simp add: for_chunks_Chunk Let_def del: for_chunks.simps)
        next
          case ne: False
          show ?thesis
          proof (cases "to_csv e (temp_file_of pn) (chunk_of e rows)")
            case (Some x)
            with ne col Inr run that(6)[OF ev col Inr ne Some] show ?thesis
              by (simp add: for_chunks_Chunk Let_def del: for_chunks.simps)
          next
            case wr: None
            show ?thesis
            proof (cases "upload_file e (uploads w) (call_of e cfg pn rows)")
              case (Some x)
              with wr ne col Inr run that(7)[OF ev col Inr ne wr Some] show ?thesis
                by (simp add: for_chunks_Chunk Let_def del: for_chunks.simps)
            next
              case up: None
              show ?thesis
              proof (cases "os_remove e (temp_file_of pn)")
                case (Some y)
                with up wr ne col Inr run that(8)[OF ev col Inr ne wr up Some] show ?thesis
                  by (simp add: for_chunks_Chunk Let_def del: for_chunks.simps)
              next
                case None
                with up wr ne col Inr run that(9)[OF ev col Inr ne wr up None] show ?thesis
                  by (simp add: for_chunks_Chunk Let_def del: for_chunks.simps)
              qed
            qed
          qed
        qed
      qed
    qed
  qed
qed

lemma for_chunks_log:
  "for_chunks e cfg evs pn s w = (r, s', w') \<Longrightarrow>
     \<exists>new wnew. uploads w' = uploads w @ new \<and> csv_writes w' = csv_writes w @ wnew"
proof (induction evs arbitrary: pn s w)
  case Nil
  then show ?case by simp
next
  case (Cons ev evs)
  from Cons.prems show ?case
  proof (cases rule: for_chunks_cases)
    case Done
    then show ?thesis by simp
  next
    case (ReadRaises x rest)
    from processing_failed_stop[OF ReadRaises(2)] show ?thesis by simp
  next
    case (KeyError hdr rows rest)
    from processing_failed_stop[OF KeyError(3)] show ?thesis by simp
  next
    case (ParseRaised hdr rows rest x)
    from processing_failed_stop[OF ParseRaised(4)] show ?thesis by simp
  next
    case (Skip hdr rows rest frame)
    from Skip(1) have "rest = evs" by simp
    with Cons.IH[OF Skip(5)[unfolded this]] show ?thesis by simp
  next
    case (WriteRaised hdr rows rest frame x)
    from processing_failed_stop[OF WriteRaised(6)] show ?thesis by simp
  next
    case (UploadRaised hdr rows rest frame x)
    from upload_raised_stop[of e "call_of e cfg pn rows", simplified, OF UploadRaised(7)]
    show ?thesis by simp
  next
    case (RemoveRaised hdr rows rest frame y)
    from processing_failed_stop[OF RemoveRaised(8)] show ?thesis by simp
  next
    case (Uploaded hdr rows rest frame)
    from Uploaded(1) have "rest = evs" by simp
    with Cons.IH[OF Uploaded(8)[unfolded this]] show ?thesis by auto
  qed
qed

lemma for_chunks_new_logs:
  assumes "for_chunks e cfg evs pn s w = (r, s', w')"
  shows "uploads w' = uploads w @ new_uploads w w'"
    and "csv_writes w' = csv_writes w @ new_writes w w'"
proof -
  from for_chunks_log[OF assms] obtain new wnew where
    "uploads w' = uploads w @ new" "csv_writes w' = csv_writes w @ wnew" by blast
  then show "uploads w' = uploads w @ new_uploads w w'"
    and "csv_writes w' = csv_writes w @ new_writes w w'"
    by (simp_all add: new_uploads_def new_writes_def)
qed

lemma for_chunks_run_induct [consumes 3,
    case_names Done ReadRaises KeyError ParseRaised Skip WriteRaised UploadRaised RemoveRaised
      Uploaded]:
  assumes run: "for_chunks e cfg evs pn s w = (r, s', w')"
    and lg: "uploads w' = uploads w @ new"
    and wl: "csv_writes w' = csv_writes w @ wnew"
    and Done: "\<And>pn. r = Inr True \<Longrightarrow> P [] pn s' w' [] []"
    and ReadRaises: "\<And>x rest pn s w. processing_failed e x s w = (r, s', w') \<Longrightarrow>
           P (ReadRaises x # rest) pn s w [] []"
    and KeyError: "\<And>hdr rows rest pn s w. ''video_published_at'' \<notin> set hdr \<Longrightarrow>
           processing_failed e KeyError_published_at s (w\<lparr>chunks_read := Suc (chunks_read w)\<rparr>)
             = (r, s', w') \<Longrightarrow>
           P (Chunk hdr rows # rest) pn s w [] []"
    and ParseRaised: "\<And>hdr rows rest x pn s w. ''video_published_at'' \<in> set hdr \<Longrightarrow>
           parse_published_at e rows = Inl x \<Longrightarrow>
           processing_failed e x s (w\<lparr>chunks_read := Suc (chunks_read w)\<rparr>) = (r, s', w') \<Longrightarrow>
           P (Chunk hdr rows # rest) pn s w [] []"
    and Skip: "\<And>hdr rows rest frame pn s w new wnew. ''video_published_at'' \<in> set hdr \<Longrightarrow>
           parse_published_at e rows = Inr frame \<Longrightarrow>
           chunk_of e rows = [] \<Longrightarrow>
           for_chunks e cfg rest pn s (w\<lparr>chunks_read := Suc (chunks_read w)\<rparr>) = (r, s', w') \<Longrightarrow>
           uploads w' = uploads w @ new \<Longrightarrow>
           csv_writes w' = csv_writes w @ wnew \<Longrightarrow>
           P rest pn s (w\<lparr>chunks_read := Suc (chunks_read w)\<rparr>) new wnew \<Longrightarrow>
           P (Chunk hdr rows # rest) pn s w new wnew"
    and WriteRaised: "\<And>hdr rows rest frame x pn s w. ''video_published_at'' \<in> set hdr \<Longrightarrow>
           parse_published_at e rows = Inr frame \<Longrightarrow>
           chunk_of e rows \<noteq> [] \<Longrightarrow>
           to_csv e (temp_file_of pn) (chunk_of e rows) = Some x \<Longrightarrow>
           processing_failed e x
             (s\<lparr>total_rows := total_rows s + int (length (chunk_of e rows))\<rparr>)
             (w\<lparr>chunks_read := Suc (chunks_read w),
                csv_writes := csv_writes w @ [(temp_file_of pn, chunk_of e rows, Some x)]\<rparr>)
             = (r, s', w') \<Longrightarrow>
           P (Chunk hdr rows # rest) pn s w [] [(temp_file_of pn, chunk_of e rows, Some x)]"
    and UploadRaised: "\<And>hdr rows rest frame x pn s w. ''video_published_at'' \<in> set hdr \<Longrightarrow>
           parse_published_at e rows = Inr frame \<Longrightarrow>
           chunk_of e rows \<noteq> [] \<Longrightarrow>
           to_csv e (temp_file_of pn) (chunk_of e rows) = None \<Longrightarrow>
           upload_file e (uploads w) (call_of e cfg pn rows) = Some x \<Longrightarrow>
           upload_raised e (temp_file_of pn) x
             (s\<lparr>total_rows := total_rows s + int (length (chunk_of e rows))\<rparr>)
             (w\<lparr>chunks_read := Suc (chunks_read w),
                csv_writes := csv_writes w @ [(temp_file_of pn, chunk_of e rows, None)],
                uploads := uploads w @ [(call_of e cfg pn rows, Some x)]\<rparr>) = (r, s', w') \<Longrightarrow>
           P (Chunk hdr rows # rest) pn s w [(call_of e cfg pn rows, Some x)]
             [(temp_file_of pn, chunk_of e rows, None)]"
    and RemoveRaised: "\<And>hdr rows rest frame y pn s w. ''video_published_at'' \<in> set hdr \<Longrightarrow>
           parse_published_at e rows = Inr frame \<Longrightarrow>
           chunk_of e rows \<noteq> [] \<Longrightarrow>
           to_csv e (temp_file_of pn) (chunk_of e rows) = None \<Longrightarrow>
           upload_file e (uploads w) (call_of e cfg pn rows) = None \<Longrightarrow>
           os_remove e (temp_file_of pn) = Some y \<Longrightarrow>
           processing_failed e y
             (s\<lparr>total_rows := total_rows s + int (length (chunk_of e rows)),
                files_uploaded := files_uploaded s @ [s3_url_of cfg pn]\<rparr>)
             (w\<lparr>chunks_read := Suc (chunks_read w),
                csv_writes := csv_writes w @ [(temp_file_of pn, chunk_of e rows, None)],
                uploads := uploads w @ [(call_of e cfg pn rows, None)],
                removals := removals w @ [(temp_file_of pn, Some y)]\<rparr>) = (r, s', w') \<Longrightarrow>
           P (Chunk hdr rows # rest) pn s w [(call_of e cfg pn rows, None)]
             [(temp_file_of pn, chunk_of e rows, None)]"
    and Uploaded: "\<And>hdr rows rest frame pn s w new wnew. ''video_published_at'' \<in> set hdr \<Longrightarrow>
           parse_published_at e rows = Inr frame \<Longrightarrow>
           chunk_of e rows \<noteq> [] \<Longrightarrow>
           to_csv e (temp_file_of pn) (chunk_of e rows) = None \<Longrightarrow>
           upload_file e (uploads w) (call_of e cfg pn rows) = None \<Longrightarrow>
           os_remove e (temp_file_of pn) = None \<Longrightarrow>
           for_chunks e cfg rest (Suc pn)
             (s\<lparr>total_rows := total_rows s + int (length (chunk_of e rows)),
                files_uploaded := files_uploaded s @ [s3_url_of cfg pn]\<rparr>)
             (w\<lparr>chunks_read := Suc (chunks_read w),
                csv_writes := csv_writes w @ [(temp_file_of pn, chunk_of e rows, None)],
                uploads := uploads w @ [(call_of e cfg pn rows, None)],
                removals := removals w @ [(temp_file_of pn, None)]\<rparr>) = (r, s', w') \<Longrightarrow>
           uploads w' = uploads w @ (call_of e cfg pn rows, None) # new \<Longrightarrow>
           csv_writes w' = csv_writes w @ (temp_file_of pn, chunk_of e rows, None) # wnew \<Longrightarrow>
           P rest (Suc pn)
             (s\<lparr>total_rows := total_rows s + int (length (chunk_of e rows)),
                files_uploaded := files_uploaded s @ [s3_url_of cfg pn]\<rparr>)
             (w\<lparr>chunks_read := Suc (chunks_read w),
                csv_writes := csv_writes w @ [(temp_file_of pn, chunk_of e rows, None)],
                uploads := uploads w @ [(call_of e cfg pn rows, None)],
                removals := removals w @ [(temp_file_of pn, None)]\<rparr>) new wnew \<Longrightarrow>
           P (Chunk hdr rows # rest) pn s w ((call_of e cfg pn rows, None) # new)
             ((temp_file_of pn, chunk_of e rows, None) # wnew)"
  shows "P evs pn s w new wnew"
  using run lg wl
proof (induction evs arbitrary: pn s w new wnew)
  case Nil
  then show ?case using Done by simp
next
  case (Cons ev evs)
  from Cons.prems(1) show ?case
  proof (cases rule: for_chunks_cases)
    case Done
    then show ?thesis by simp
  next
    case (ReadRaises x rest)
    from processing_failed_stop[OF ReadRaises(2)] Cons.prems(2,3)
    have "new = []" "wnew = []" by simp_all
    with ReadRaises assms(5) show ?thesis by simp
  next
    case (KeyError hdr rows rest)
    from processing_failed_stop[OF KeyError(3)] Cons.prems(2,3)
    have "new = []" "wnew = []" by simp_all
    with KeyError assms(6) show ?thesis by simp
  next
    case (ParseRaised hdr rows rest x)
    from processing_failed_stop[OF ParseRaised(4)] Cons.prems(2,3)
    have "new = []" "wnew = []" by simp_all
    with ParseRaised assms(7) show ?thesis by simp
  next
    case (Skip hdr rows rest frame)
    from Skip(1) have rest: "rest = evs" by simp
    note run' = Skip(5)[unfolded rest]
    have lg': "uploads w' = uploads (w\<lparr>chunks_read := Suc (chunks_read w)\<rparr>) @ new"
      and wl': "csv_writes w' = csv_writes (w\<lparr>chunks_read := Suc (chunks_read w)\<rparr>) @ wnew"
      using Cons.prems(2,3) by simp_all
    from assms(8)[OF Skip(2,3,4) run' Cons.prems(2,3) Cons.IH[OF run' lg' wl']] Skip(1)
    show ?thesis by simp
  next
    case (WriteRaised hdr rows rest frame x)
    from processing_failed_stop[OF WriteRaised(6)] Cons.prems(2,3)
    have "new = []" "wnew = [(temp_file_of pn, chunk_of e rows, Some x)]" by simp_all
    with assms(9)[OF WriteRaised(2,3,4,5,6)] WriteRaised(1) show ?thesis by simp
  next
    case (UploadRaised hdr rows rest frame x)
    from upload_raised_stop[of e "call_of e cfg pn rows", simplified, OF UploadRaised(7)]
      Cons.prems(2,3)
    have "new = [(call_of e cfg pn rows, Some x)]"
      "wnew = [(temp_file_of pn, chunk_of e rows, None)]" by simp_all
    with assms(10)[OF UploadRaised(2,3,4,5,6,7)] UploadRaised(1) show ?thesis by simp
  next
    case (RemoveRaised hdr rows rest frame y)
    from processing_failed_stop[OF RemoveRaised(8)] Cons.prems(2,3)
    have "new = [(call_of e cfg pn rows, None)]"
      "wnew = [(temp_file_of pn, chunk_of e rows, None)]" by simp_all
    with assms(11)[OF RemoveRaised(2,3,4,5,6,7,8)] RemoveRaised(1) show ?thesis by simp
  next
    case (Uploaded hdr rows rest frame)
    from Uploaded(1) have rest: "rest = evs" by simp
    note run' = Uploaded(8)[unfolded rest]
    from for_chunks_log[OF run'] obtain new' wnew' where
      lg': "uploads w' = uploads (w\<lparr>chunks_read := Suc (chunks_read w),
                csv_writes := csv_writes w @ [(temp_file_of pn, chunk_of e rows, None)],
                uploads := uploads w @ [(call_of e cfg pn rows, None)],
                removals := removals w @ [(temp_file_of pn, None)]\<rparr>) @ new'"
      and wl': "csv_writes w' = csv_writes (w\<lparr>chunks_read := Suc (chunks_read w),
                csv_writes := csv_writes w @ [(temp_file_of pn, chunk_of e rows, None)],
                uploads := uploads w @ [(call_of e cfg pn rows, None)],
                removals := removals w @ [(temp_file_of pn, None)]\<rparr>) @ wnew'"
      by blast
    with Cons.prems(2,3) have new: "new = (call_of e cfg pn rows, None) # new'"
      and wnew: "wnew = (temp_file_of pn, chunk_of e rows, None) # wnew'" by simp_all
    from Cons.prems(2,3) new wnew
    have lg2: "uploads w' = uploads w @ (call_of e cfg pn rows, None) # new'"
      and wl2: "csv_writes w' = csv_writes w @ (temp_file_of pn, chunk_of e rows, None) # wnew'"
      by simp_all
    from assms(12)[OF Uploaded(2,3,4,5,6,7) run' lg2 wl2 Cons.IH[OF run' lg' wl']]
    show ?thesis using new wnew Uploaded(1) by simp
  qed
qed

lemma upt_shift: "[pn..<Suc (pn + k)] = pn # [Suc pn..<Suc (pn + k)]"
  by (simp add: upt_conv_Cons)

lemma for_chunks_calls:
  assumes "for_chunks e cfg evs pn s w = (r, s', w')" and "uploads w' = uploads w @ new"
    and "csv_writes w' = csv_writes w @ wnew"
  shows "map (\<lambda>cr. call_key (fst cr)) new = map (s3_key_of cfg) [pn..<pn + length new] \<and>
     map (\<lambda>cr. call_file (fst cr)) new = map temp_file_of [pn..<pn + length new] \<and>
     (\<forall>cr \<in> set new. call_bucket (fst cr) = S3_BUCKET cfg \<and> call_body (fst cr) \<noteq> []) \<and>
     (\<forall>cr \<in> set (butlast new). snd cr = None)"
  using assms
proof (induction evs pn s w new wnew rule: for_chunks_run_induct)
  case (Uploaded hdr rows rest frame pn s w new wnew)
  then show ?case by (simp add: upt_shift del: upt_Suc)
qed simp_all

lemma for_chunks_writes:
  assumes "for_chunks e cfg evs pn s w = (r, s', w')" and "uploads w' = uploads w @ new"
    and "csv_writes w' = csv_writes w @ wnew"
  shows "map (\<lambda>cr. (call_file (fst cr), call_body (fst cr))) new =
           map (\<lambda>wr. (fst wr, fst (snd wr))) (filter (\<lambda>wr. snd (snd wr) = None) wnew) \<and>
         (\<forall>wr \<in> set (butlast wnew). snd (snd wr) = None) \<and>
         (\<forall>wr \<in> set wnew. fst (snd wr) \<noteq> []) \<and>
         body_rows new \<le> written_rows wnew \<and>
         ((\<forall>wr \<in> set wnew. snd (snd wr) = None) \<longrightarrow> body_rows new = written_rows wnew)"
  using assms
proof (induction evs pn s w new wnew rule: for_chunks_run_induct)
  case (Uploaded hdr rows rest frame pn s w new wnew)
  then show ?case by (simp add: body_rows_def written_rows_def)
qed (simp_all add: body_rows_def written_rows_def)

lemma for_chunks_summary:
  assumes "for_chunks e cfg evs pn s w = (r, s', w')" and "uploads w' = uploads w @ new"
    and "csv_writes w' = csv_writes w @ wnew"
  shows "files_uploaded s' =
           files_uploaded s @ map (s3_url_of cfg) [pn..<pn + length (succeeded new)] \<and>
         total_rows s' = total_rows s + written_rows wnew \<and>
         start_time s' = start_time s \<and> end_time s' = end_time s \<and> status s' = status s \<and>
         download_size_mb s' = download_size_mb s \<and> cleanups w' = cleanups w \<and>
         saves w' = saves w \<and> summary_file w' = summary_file w \<and>
         chunks_read w \<le> chunks_read w' \<and> clock_reads w \<le> clock_reads w'"
  using assms
proof (induction evs pn s w new wnew rule: for_chunks_run_induct)
  case (Done pn)
  then show ?case by (simp add: succeeded_def written_rows_def)
next
  case (ReadRaises x rest pn s w)
  from processing_failed_stop[OF this] show ?case
    by (simp add: succeeded_def written_rows_def)
next
  case (KeyError hdr rows rest pn s w)
  from processing_failed_stop[OF this(2)] show ?case
    by (simp add: succeeded_def written_rows_def)
next
  case (ParseRaised hdr rows rest x pn s w)
  from processing_failed_stop[OF this(3)] show ?case
    by (simp add: succeeded_def written_rows_def)
next
  case (Skip hdr rows rest frame pn s w new wnew)
  then show ?case by simp
next
  case (WriteRaised hdr rows rest frame x pn s w)
  from processing_failed_stop[OF this(5)] show ?case
    by (simp add: succeeded_def written_rows_def)
next
  case (UploadRaised hdr rows rest frame x pn s w)
  from upload_raised_stop[of e "call_of e cfg pn rows", simplified, OF this(6)] show ?case
    by (simp add: succeeded_def written_rows_def)
next
  case (RemoveRaised hdr rows rest frame y pn s w)
  from processing_failed_stop[OF this(7)] show ?case
    by (simp add: succeeded_def written_rows_def)
next
  case (Uploaded hdr rows rest frame pn s w new wnew)
  then show ?case by (simp add: succeeded_def written_rows_def upt_shift del: upt_Suc)
qed

lemma for_chunks_success:
  assumes "for_chunks e cfg evs pn s w = (r, s', w')" and "uploads w' = uploads w @ new"
    and "csv_writes w' = csv_writes w @ wnew"
    and "r = Inr True"
  shows "(\<forall>cr \<in> set new. snd cr = None) \<and> (\<forall>wr \<in> set wnew. snd (snd wr) = None) \<and>
         errors s' = errors s \<and>
         clock_reads w' = clock_reads w \<and>
         chunks_read w' = chunks_read w + length evs \<and>
         (\<forall>x. ReadRaises x \<notin> set evs) \<and>
         (\<forall>hdr rows. Chunk hdr rows \<in> set evs \<longrightarrow>
            ''video_published_at'' \<in> set hdr \<and> \<not> isl (parse_published_at e rows)) \<and>
         written_rows wnew = kept_rows e evs"
  using assms
proof (induction evs pn s w new wnew rule: for_chunks_run_induct)
  case (Done pn)
  then show ?case by (simp add: written_rows_def)
next
  case (ReadRaises x rest pn s w)
  from processing_failed_stop[OF this(1)] this(2) show ?case
    by (simp split: if_splits)
next
  case (KeyError hdr rows rest pn s w)
  from processing_failed_stop[OF this(2)] this(3) show ?case
    by (simp split: if_splits)
next
  case (ParseRaised hdr rows rest x pn s w)
  from processing_failed_stop[OF this(3)] this(4) show ?case
    by (simp split: if_splits)
next
  case (Skip hdr rows rest frame pn s w new wnew)
  then show ?case by auto
next
  case (WriteRaised hdr rows rest frame x pn s w)
  from processing_failed_stop[OF this(5)] this(6) show ?case
    by (simp split: if_splits)
next
  case (UploadRaised hdr rows rest frame x pn s w)
  from upload_raised_stop[of e "call_of e cfg pn rows", simplified, OF this(6)] this(7)
  show ?case
    by (cases x)
       (simp_all add: failed_upload_result_def split: if_splits option.splits)
next
  case (RemoveRaised hdr rows rest frame y pn s w)
  from processing_failed_stop[OF this(7)] this(8) show ?case
    by (simp split: if_splits)
next
  case (Uploaded hdr rows rest frame pn s w new wnew)
  then show ?case by (auto simp: written_rows_def)
qed

lemma for_chunks_failed_upload:
  assumes "for_chunks e cfg evs pn s w = (r, s', w')" and "uploads w' = uploads w @ new"
    and "csv_writes w' = csv_writes w @ wnew"
    and "(c, Some x) \<in> set new"
  shows "last new = (c, Some x) \<and>
         r = failed_upload_result e c x \<and>
         errors s' = errors s @ failed_upload_entries e c x (clock_reads w) \<and>
         clock_reads w' = clock_reads w + length (failed_upload_entries e c x (clock_reads w)) \<and>
         (\<forall>wr \<in> set wnew. snd (snd wr) = None) \<and>
         (\<forall>other. for_chunks e cfg (take (chunks_read w' - chunks_read w) evs @ other) pn s w
                    = (r, s', w'))"
  using assms
proof (induction evs pn s w new wnew rule: for_chunks_run_induct)
  case (Skip hdr rows rest frame pn s w new wnew)
  from for_chunks_summary[OF Skip(4)] Skip(5,6)
  have "Suc (chunks_read w) \<le> chunks_read w'" by simp
  then have k: "chunks_read w' - chunks_read w = Suc (chunks_read w' - Suc (chunks_read w))"
    by simp
  from Skip show ?case
    by (simp add: k for_chunks_Chunk del: for_chunks.simps)
next
  case (Uploaded hdr rows rest frame pn s w new wnew)
  from for_chunks_summary[OF Uploaded(7)] Uploaded(8,9)
  have "Suc (chunks_read w) \<le> chunks_read w'" by simp
  then have k: "chunks_read w' - chunks_read w = Suc (chunks_read w' - Suc (chunks_read w))"
    by simp
  from Uploaded show ?case
    by (auto simp: k for_chunks_Chunk simp del: for_chunks.simps)
next
  case (UploadRaised hdr rows rest frame y pn s w)
  then have xy: "y = x" and c: "c = call_of e cfg pn rows" by simp_all
  note st = upload_raised_stop[of e "call_of e cfg pn rows", simplified, OF UploadRaised(6)]
  from st have k: "chunks_read w' - chunks_read w = Suc 0" by simp
  from st have a: "r = failed_upload_result e c x"
    "errors s' = errors s @ failed_upload_entries e c x (clock_reads w)"
    "clock_reads w' = clock_reads w + length (failed_upload_entries e c x (clock_reads w))"
    by (simp_all add: xy c)
  have b: "for_chunks e cfg (Chunk hdr rows # other) pn s w = (r, s', w')" for other
    using UploadRaised(1,2,3,4,5,6)
    by (simp add: for_chunks_Chunk del: for_chunks.simps)
  from a b show ?case by (simp add: k xy c)
qed simp_all

section \<open>Chunks and lines\<close>













section \<open>The steps around the loop\<close>

lemma save_eq:
  "save e cfg s w =
     (write_file e (saves w),
      w\<lparr>saves := Suc (saves w),
        summary_file := (if write_file e (saves w) = None then Some (to_dict e cfg s) else None)\<rparr>)"
  by (simp add: save_def Let_def split: option.splits)

lemma download_facts:
  assumes "download_kaggle_dataset e s w = (r, s', w')"
  shows "same_deliveries s w s' w'" and "r = Inr True \<Longrightarrow> errors s' = errors s"
    and "end_time s' = end_time s" and "status s' = status s"
    and "cleanups w' = cleanups w" and "saves w' = saves w" and "summary_file w' = summary_file w"
proof -
  have "same_deliveries s w s' w' \<and> (r = Inr True \<longrightarrow> errors s' = errors s) \<and>
    end_time s' = end_time s \<and> status s' = status s \<and>
    cleanups w' = cleanups w \<and> saves w' = saves w \<and> summary_file w' = summary_file w"
  proof (cases "requests_get e")
    case (Inl x)
    with assms show ?thesis
      by (cases x) (auto simp: download_kaggle_dataset_def add_error_eq same_deliveries_def)
  next
    case (Inr n)
    with assms show ?thesis
      by (auto simp: download_kaggle_dataset_def same_deliveries_def)
  qed
  then show "same_deliveries s w s' w'" and "r = Inr True \<Longrightarrow> errors s' = errors s"
    and "end_time s' = end_time s" and "status s' = status s"
    and "cleanups w' = cleanups w" and "saves w' = saves w" and "summary_file w' = summary_file w"
    by simp_all
qed

lemma extract_facts:
  assumes "extract_csv_from_zip e s w = (r, s', w')"
  shows "same_deliveries s w s' w'" and "r = Inr True \<Longrightarrow> errors s' = errors s"
    and "end_time s' = end_time s" and "status s' = status s"
    and "cleanups w' = cleanups w" and "saves w' = saves w" and "summary_file w' = summary_file w"
proof -
  have "same_deliveries s w s' w' \<and> (r = Inr True \<longrightarrow> errors s' = errors s) \<and>
    end_time s' = end_time s \<and> status s' = status s \<and>
    cleanups w' = cleanups w \<and> saves w' = saves w \<and> summary_file w' = summary_file w"
    using assms
    by (auto simp: extract_csv_from_zip_def extraction_failed_def add_error_eq same_deliveries_def
        Let_def split: sum.splits if_splits option.splits)
  then show "same_deliveries s w s' w'" and "r = Inr True \<Longrightarrow> errors s' = errors s"
    and "end_time s' = end_time s" and "status s' = status s"
    and "cleanups w' = cleanups w" and "saves w' = saves w" and "summary_file w' = summary_file w"
    by simp_all
qed

lemma execute_pipeline_cases [consumes 1, case_names Stopped Processed]:
  assumes "execute_pipeline e cfg s w = (r, s', w')"
  obtains "r \<noteq> Inr True" "same_deliveries s w s' w'"
      "end_time s' = end_time s" "status s' = status s"
      "cleanups w' = cleanups w" "saves w' = saves w" "summary_file w' = summary_file w"
  | s2 w2 where "process_and_upload_data e cfg s2 w2 = (r, s', w')"
      "same_deliveries s w s2 w2" "errors s2 = errors s"
      "end_time s2 = end_time s" "status s2 = status s"
      "cleanups w2 = cleanups w" "saves w2 = saves w" "summary_file w2 = summary_file w"
proof -
  obtain r1 s1 w1 where d: "download_kaggle_dataset e s w = (r1, s1, w1)"
    by (cases "download_kaggle_dataset e s w") auto
  note df = download_facts[OF d]
  show ?thesis
  proof (cases "r1 = Inr True")
    case False
    with d assms have "(r, s', w') = (r1, s1, w1)"
      by (auto simp: execute_pipeline_def split: sum.splits bool.splits)
    with False df that(1) show ?thesis by simp
  next
    case True
    obtain r2 s2 w2 where x: "extract_csv_from_zip e s1 w1 = (r2, s2, w2)"
      by (cases "extract_csv_from_zip e s1 w1") auto
    note xf = extract_facts[OF x]
    have sd: "same_deliveries s w s2 w2"
      using df(1) xf(1) by (simp add: same_deliveries_def)
    show ?thesis
    proof (cases "r2 = Inr True")
      case False
      with True d x assms have "(r, s', w') = (r2, s2, w2)"
        by (auto simp: execute_pipeline_def split: sum.splits bool.splits)
      with False sd df xf that(1) show ?thesis by simp
    next
      case r2: True
      with True d x assms have "process_and_upload_data e cfg s2 w2 = (r, s', w')"
        by (simp add: execute_pipeline_def)
      with that(2)[OF this sd] df xf True r2 show ?thesis by simp
    qed
  qed
qed

lemma same_deliveries_refl [simp]: "same_deliveries s w s w"
  by (simp add: same_deliveries_def)

lemma same_deliveries_trans:
  "same_deliveries s w s1 w1 \<Longrightarrow> same_deliveries s1 w1 s2 w2 \<Longrightarrow> same_deliveries s w s2 w2"
  by (simp add: same_deliveries_def)

lemma finish_facts:
  assumes "finish e cfg b s w = (rb, s', w')"
  shows "same_deliveries s w s' w'"
    and "rb = Inr c \<Longrightarrow> exits_saved e cfg b s' w' c"
    and "rb = Inl x \<Longrightarrow> raised_by_cleanup_or_save e x"
  using assms
  by (auto simp: finish_def cleanup_files_def complete_eq save_eq same_deliveries_def
      exits_saved_def raised_by_cleanup_or_save_def split: option.splits if_splits)

lemma complete_save_exit_facts:
  assumes "complete_save_exit e cfg s w = (rb, s', w')"
  shows "same_deliveries s w s' w'"
    and "rb = Inr c \<Longrightarrow> exits_saved e cfg False s' w' c"
    and "rb = Inl x \<Longrightarrow> raised_by_cleanup_or_save e x"
  using assms
  by (auto simp: complete_save_exit_def complete_eq save_eq same_deliveries_def
      exits_saved_def raised_by_cleanup_or_save_def split: option.splits if_splits)

lemma handler_facts:
  assumes "handler e cfg x s w = (ex, s', w')"
  shows "same_deliveries s w s' w'"
    and "status s' = ''failed''" and "end_time s' \<noteq> None"
    and "errors s' = errors s @ [(isoformat e (utcnow e (clock_reads w)), handler_message x)]"
    and "ex = Exit c \<Longrightarrow> exits_saved e cfg False s' w' c"
    and "ex = Uncaught y \<Longrightarrow> raised_by_cleanup_or_save e y"
  using assms
  by (auto simp: handler_def cleanup_files_def complete_eq add_error_eq save_eq
      same_deliveries_def exits_saved_def raised_by_cleanup_or_save_def
      split: option.splits if_splits)

lemma main_body_cases [consumes 1, case_names NotProcessed Processed]:
  assumes "main_body e cfg s w = (rb, s', w')"
  obtains "same_deliveries s w s' w'"
      "\<And>c. rb = Inr c \<Longrightarrow> exits_saved e cfg False s' w' c"
      "\<And>x. rb = Inl x \<Longrightarrow> end_time s' = end_time s \<and> status s' = status s \<or> raised_by_cleanup_or_save e x"
  | s2 w2 r s3 w3 where "process_and_upload_data e cfg s2 w2 = (r, s3, w3)"
      "same_deliveries s w s2 w2" "errors s2 = errors s"
      "same_deliveries s3 w3 s' w'"
      "\<And>c. rb = Inr c \<Longrightarrow> \<exists>b. r = Inr b \<and> exits_saved e cfg b s' w' c"
      "\<And>x. rb = Inl x \<Longrightarrow> end_time s' = end_time s \<and> status s' = status s \<or> raised_by_cleanup_or_save e x"
proof (cases "validate cfg")
  case False
  with assms have "complete_save_exit e cfg s w = (rb, s', w')"
    by (simp add: main_body_def)
  from complete_save_exit_facts[OF this] that(1) show ?thesis by blast
next
  case v: True
  show ?thesis
  proof (cases "initialize_s3_client e cfg")
    case (Some x)
    with v assms have "(rb, s', w') = (Inl x, s, w)" by (simp add: main_body_def)
    with that(1) show ?thesis by simp
  next
    case None
    show ?thesis
    proof (cases "verify_s3_access e")
      case (Inl x)
      with v None assms have "(rb, s', w') = (Inl x, s, w)" by (simp add: main_body_def)
      with that(1) show ?thesis by simp
    next
      case (Inr ok)
      show ?thesis
      proof (cases ok)
        case False
        with v None Inr assms
        have c: "complete_save_exit e cfg
              (s\<lparr>errors := errors s @ [(isoformat e (utcnow e (clock_reads w)),
                                        ''S3 bucket not accessible'')]\<rparr>)
              (w\<lparr>clock_reads := Suc (clock_reads w)\<rparr>) = (rb, s', w')"
          by (simp add: main_body_def add_error_eq)
        from complete_save_exit_facts[OF c] that(1) show ?thesis
          by (auto simp: same_deliveries_def)
      next
        case True
        obtain r s1 w1 where p: "execute_pipeline e cfg s w = (r, s1, w1)"
          by (cases "execute_pipeline e cfg s w") auto
        show ?thesis
        proof (cases r)
          case (Inl x)
          with v None Inr True p assms have eq: "(rb, s', w') = (Inl x, s1, w1)"
            by (simp add: main_body_def)
          from p show ?thesis
          proof (cases rule: execute_pipeline_cases)
            case Stopped
            with eq that(1) show ?thesis by simp
          next
            case (Processed s2 w2)
            note run = Processed(1)[unfolded process_and_upload_data_def]
            from for_chunks_summary[OF run for_chunks_new_logs[OF run]]
            have "end_time s1 = end_time s2" "status s1 = status s2" by simp_all
            with that(2)[OF Processed(1,2,3)] eq Processed show ?thesis by simp
          qed
        next
          case (Inr b)
          with v None \<open>verify_s3_access e = Inr ok\<close> True p assms
          have f: "finish e cfg b s1 w1 = (rb, s', w')"
            by (simp add: main_body_def)
          note ff = finish_facts[OF f]
          from p show ?thesis
          proof (cases rule: execute_pipeline_cases)
            case Stopped
            with Inr have "b = False" by simp
            with ff Stopped that(1) show ?thesis
              by (auto intro: same_deliveries_trans)
          next
            case (Processed s2 w2)
            with that(2)[OF Processed(1,2,3)] ff Inr show ?thesis by auto
          qed
        qed
      qed
    qed
  qed
qed

lemma start_of_eq:
  "start_of e =
     (\<lparr>start_time = utcnow e 0, end_time = None, status = ''running'', total_rows = 0,
       files_uploaded = [], errors = [], download_size_mb = PyInt 0\<rparr>,
      \<lparr>clock_reads = Suc 0, chunks_read = 0, csv_writes = [], uploads = [], removals = [],
       cleanups = 0, saves = 0, summary_file = None\<rparr>)"
  by (simp add: start_of_def Summary_init_def now_def world_at_start_def)

lemma main_eq:
  "main e cfg =
     (case main_body e cfg (fst (start_of e)) (snd (start_of e)) of
        (Inr code, s1, w1) \<Rightarrow> (Exit code, s1, w1)
      | (Inl x, s1, w1) \<Rightarrow> handler e cfg x s1 w1)"
  by (simp add: main_def start_of_def split: prod.splits)

lemma main_cases [consumes 1, case_names NotProcessed Processed]:
  assumes "main e cfg = (ex, fs, fw)"
  obtains "uploads fw = []" "files_uploaded fs = []" "total_rows fs = 0" "chunks_read fw = 0"
      "status fs = ''failed''" "ex \<noteq> Exit 0" "csv_writes fw = []"
  | s2 w2 r s3 w3 where "process_and_upload_data e cfg s2 w2 = (r, s3, w3)"
      "uploads w2 = []" "files_uploaded s2 = []" "total_rows s2 = 0" "chunks_read w2 = 0"
      "errors s2 = []" "same_deliveries s3 w3 fs fw"
      "status fs = ''success'' \<or> ex = Exit 0 \<Longrightarrow> r = Inr True" "csv_writes w2 = []"
proof -
  obtain rb s1 w1 where b: "main_body e cfg (fst (start_of e)) (snd (start_of e)) = (rb, s1, w1)"
    by (cases "main_body e cfg (fst (start_of e)) (snd (start_of e))") auto
  have st: "uploads (snd (start_of e)) = []" "files_uploaded (fst (start_of e)) = []"
    "total_rows (fst (start_of e)) = 0" "chunks_read (snd (start_of e)) = 0"
    "errors (fst (start_of e)) = []" "csv_writes (snd (start_of e)) = []"
    by (simp_all add: start_of_eq)
  have fin: "same_deliveries s1 w1 fs fw \<and>
      (status fs = ''success'' \<or> ex = Exit 0 \<longrightarrow> rb = Inr 0 \<and> fs = s1) \<and>
      (status fs \<noteq> ''success'' \<longrightarrow> status fs = ''failed'' \<or> (\<exists>c. rb = Inr c \<and> fs = s1))"
  proof (cases rb)
    case (Inl x)
    with b assms have "handler e cfg x s1 w1 = (ex, fs, fw)" by (simp add: main_eq)
    from handler_facts[OF this] Inl show ?thesis
      by (auto simp: exits_saved_def)
  next
    case (Inr c)
    with b assms have eq: "(ex, fs, fw) = (Exit c, s1, w1)" by (simp add: main_eq)
    from b show ?thesis
    proof (cases rule: main_body_cases)
      case NotProcessed
      from NotProcessed(2)[OF Inr] eq Inr show ?thesis by (auto simp: exits_saved_def)
    next
      case (Processed s2 w2 r s3 w3)
      from Processed(5)[OF Inr] eq Inr show ?thesis by (auto simp: exits_saved_def split: if_splits)
    qed
  qed
  from b show ?thesis
  proof (cases rule: main_body_cases)
    case NotProcessed
    have "rb \<noteq> Inr 0" using NotProcessed(2) by (auto simp: exits_saved_def)
    with fin have "status fs = ''failed''" "ex \<noteq> Exit 0"
      using NotProcessed(2) by (auto simp: exits_saved_def)
    moreover from NotProcessed(1) fin st
    have "uploads fw = []" "files_uploaded fs = []" "total_rows fs = 0" "chunks_read fw = 0"
      "csv_writes fw = []"
      by (simp_all add: same_deliveries_def)
    ultimately show ?thesis using that(1) by simp
  next
    case (Processed s2 w2 r s3 w3)
    have "same_deliveries s3 w3 fs fw"
      using Processed(4) fin by (auto intro: same_deliveries_trans)
    moreover have "status fs = ''success'' \<or> ex = Exit 0 \<Longrightarrow> r = Inr True"
    proof -
      assume "status fs = ''success'' \<or> ex = Exit 0"
      with fin have "rb = Inr 0" by simp
      from Processed(5)[OF this] show "r = Inr True"
        by (auto simp: exits_saved_def split: if_splits)
    qed
    moreover from Processed(2,3) st
    have "uploads w2 = []" "files_uploaded s2 = []" "total_rows s2 = 0" "chunks_read w2 = 0"
      "errors s2 = []" "csv_writes w2 = []"
      by (simp_all add: same_deliveries_def)
    ultimately show ?thesis using that(2)[OF Processed(1)] by blast
  qed
qed

lemma main_exit:
  assumes "main e cfg = (ex, fs, fw)"
  shows "end_time fs \<noteq> None"
    and "status fs = ''success'' \<or> status fs = ''failed''"
    and "ex = Exit c \<Longrightarrow> exits_saved e cfg (c = 0) fs fw c"
    and "ex = Uncaught y \<Longrightarrow> raised_by_cleanup_or_save e y \<and> status fs = ''failed''"
proof -
  obtain rb s1 w1 where b: "main_body e cfg (fst (start_of e)) (snd (start_of e)) = (rb, s1, w1)"
    by (cases "main_body e cfg (fst (start_of e)) (snd (start_of e))") auto
  have "end_time fs \<noteq> None \<and> (status fs = ''success'' \<or> status fs = ''failed'') \<and>
    (ex = Exit c \<longrightarrow> exits_saved e cfg (c = 0) fs fw c) \<and>
    (ex = Uncaught y \<longrightarrow> raised_by_cleanup_or_save e y \<and> status fs = ''failed'')"
  proof (cases rb)
    case (Inl x)
    with b assms have "handler e cfg x s1 w1 = (ex, fs, fw)" by (simp add: main_eq)
    from handler_facts[OF this] show ?thesis
      by (auto simp: exits_saved_def)
  next
    case (Inr c')
    with b assms have eq: "(ex, fs, fw) = (Exit c', s1, w1)" by (simp add: main_eq)
    from b show ?thesis
    proof (cases rule: main_body_cases)
      case NotProcessed
      from NotProcessed(2)[OF Inr] eq Inr show ?thesis by (auto simp: exits_saved_def)
    next
      case (Processed s2 w2 r s3 w3)
      from Processed(5)[OF Inr] eq Inr show ?thesis by (auto simp: exits_saved_def split: if_splits)
    qed
  qed
  then show "end_time fs \<noteq> None"
    and "status fs = ''success'' \<or> status fs = ''failed''"
    and "ex = Exit c \<Longrightarrow> exits_saved e cfg (c = 0) fs fw c"
    and "ex = Uncaught y \<Longrightarrow> raised_by_cleanup_or_save e y \<and> status fs = ''failed''"
    by simp_all
qed

section \<open>The scenarios, evaluated\<close>

lemma scenario_env_simps:
  "utcnow scenario_env k = 1000000 * int k"
  "isoformat scenario_env t = str_nat (nat t)"
  "to_datetime scenario_env = scenario_to_datetime"
  "to_csv scenario_env f b = None"
  "upload_file scenario_env lg c = None"
  "os_remove scenario_env f = None"
  "boto3_client scenario_env explicit = None"
  "head_bucket scenario_env = None"
  "requests_get scenario_env = Inr 1048576"
  "zip_namelist scenario_env = Inr [''youtube.csv'']"
  "zip_extract scenario_env f = None"
  "extracted scenario_env = scenario_csv"
  "remove_files scenario_env k = None"
  "write_file scenario_env k = None"
  by (simp_all add: scenario_env_def)

lemma second_upload_fails_env_simps:
  "utcnow second_upload_fails_env k = 1000000 * int k"
  "isoformat second_upload_fails_env t = str_nat (nat t)"
  "to_datetime second_upload_fails_env = scenario_to_datetime"
  "to_csv second_upload_fails_env f b = None"
  "upload_file second_upload_fails_env lg c =
     (if length lg = 1 then Some (ClientError ''AccessDenied'') else None)"
  "os_remove second_upload_fails_env f = None"
  "boto3_client second_upload_fails_env explicit = None"
  "head_bucket second_upload_fails_env = None"
  "requests_get second_upload_fails_env = Inr 1048576"
  "zip_namelist second_upload_fails_env = Inr [''youtube.csv'']"
  "zip_extract second_upload_fails_env f = None"
  "extracted second_upload_fails_env = scenario_csv"
  "remove_files second_upload_fails_env k = None"
  "write_file second_upload_fails_env k = None"
  by (simp_all add: second_upload_fails_env_def scenario_env_def)

lemma upload_and_remove_fail_env_simps:
  "utcnow upload_and_remove_fail_env k = 1000000 * int k"
  "isoformat upload_and_remove_fail_env t = str_nat (nat t)"
  "to_datetime upload_and_remove_fail_env = scenario_to_datetime"
  "to_csv upload_and_remove_fail_env f b = None"
  "upload_file upload_and_remove_fail_env lg c =
     (if length lg = 1 then Some (ClientError ''AccessDenied'') else None)"
  "os_remove upload_and_remove_fail_env f =
     (if f = ''part_0002.csv'' then Some (Exception ''Permission denied'') else None)"
  "boto3_client upload_and_remove_fail_env explicit = None"
  "head_bucket upload_and_remove_fail_env = None"
  "requests_get upload_and_remove_fail_env = Inr 1048576"
  "zip_namelist upload_and_remove_fail_env = Inr [''youtube.csv'']"
  "zip_extract upload_and_remove_fail_env f = None"
  "extracted upload_and_remove_fail_env = scenario_csv"
  "remove_files upload_and_remove_fail_env k = None"
  "write_file upload_and_remove_fail_env k = None"
  by (simp_all add: upload_and_remove_fail_env_def second_upload_fails_env_def scenario_env_def)

lemma second_write_fails_env_simps:
  "utcnow second_write_fails_env k = 1000000 * int k"
  "isoformat second_write_fails_env t = str_nat (nat t)"
  "to_datetime second_write_fails_env = scenario_to_datetime"
  "to_csv second_write_fails_env f b =
     (if f = ''part_0002.csv'' then Some (Exception ''No space left on device'') else None)"
  "upload_file second_write_fails_env lg c = None"
  "os_remove second_write_fails_env f = None"
  "boto3_client second_write_fails_env explicit = None"
  "head_bucket second_write_fails_env = None"
  "requests_get second_write_fails_env = Inr 1048576"
  "zip_namelist second_write_fails_env = Inr [''youtube.csv'']"
  "zip_extract second_write_fails_env f = None"
  "extracted second_write_fails_env = scenario_csv"
  "remove_files second_write_fails_env k = None"
  "write_file second_write_fails_env k = None"
  by (simp_all add: second_write_fails_env_def scenario_env_def)


lemma malformed_env_simps:
  "utcnow malformed_env k = 1000000 * int k"
  "isoformat malformed_env t = str_nat (nat t)"
  "to_datetime malformed_env = scenario_to_datetime"
  "to_csv malformed_env f b = None"
  "upload_file malformed_env lg c = None"
  "os_remove malformed_env f = None"
  "boto3_client malformed_env explicit = None"
  "head_bucket malformed_env = None"
  "requests_get malformed_env = Inr 1048576"
  "zip_namelist malformed_env = Inr [''youtube.csv'']"
  "zip_extract malformed_env f = None"
  "extracted malformed_env = malformed_csv"
  "remove_files malformed_env k = None"
  "write_file malformed_env k = None"
  by (simp_all add: malformed_env_def scenario_env_def)

lemma stuck_files_env_simps:
  "utcnow stuck_files_env k = 1000000 * int k"
  "isoformat stuck_files_env t = str_nat (nat t)"
  "to_datetime stuck_files_env = scenario_to_datetime"
  "to_csv stuck_files_env f b = None"
  "upload_file stuck_files_env lg c = None"
  "os_remove stuck_files_env f = None"
  "boto3_client stuck_files_env explicit = None"
  "head_bucket stuck_files_env = None"
  "requests_get stuck_files_env = Inl (Exception ''Permission denied'')"
  "zip_namelist stuck_files_env = Inr [''youtube.csv'']"
  "zip_extract stuck_files_env f = None"
  "extracted stuck_files_env = scenario_csv"
  "remove_files stuck_files_env k = Some (Exception ''Operation not permitted'')"
  "write_file stuck_files_env k = None"
  by (simp_all add: stuck_files_env_def scenario_env_def)

lemma full_disk_env_simps:
  "utcnow full_disk_env k = 1000000 * int k"
  "isoformat full_disk_env t = str_nat (nat t)"
  "to_datetime full_disk_env = scenario_to_datetime"
  "to_csv full_disk_env f b = None"
  "upload_file full_disk_env lg c = None"
  "os_remove full_disk_env f = None"
  "boto3_client full_disk_env explicit = None"
  "head_bucket full_disk_env = None"
  "requests_get full_disk_env = Inr 1048576"
  "zip_namelist full_disk_env = Inr [''youtube.csv'']"
  "zip_extract full_disk_env f = None"
  "extracted full_disk_env = scenario_csv"
  "remove_files full_disk_env k = None"
  "write_file full_disk_env k = Some (Exception ''No space left on device'')"
  by (simp_all add: full_disk_env_def scenario_env_def)
lemma scenario_config_simps:
  "KAGGLE_USERNAME scenario_config = Some ''user''"
  "KAGGLE_KEY scenario_config = Some ''key''"
  "AWS_ACCESS_KEY scenario_config = None"
  "AWS_SECRET_KEY scenario_config = None"
  "AWS_REGION scenario_config = ''us-east-1''"
  "S3_BUCKET scenario_config = ''bronze-03''"
  "S3_PREFIX scenario_config = ''final-raw/''"
  "CHUNK_ROWS scenario_config = 2"
  by (simp_all add: scenario_config_def)

lemma one_row_config_simps:
  "KAGGLE_USERNAME one_row_config = Some ''user''"
  "KAGGLE_KEY one_row_config = Some ''key''"
  "AWS_ACCESS_KEY one_row_config = None"
  "AWS_SECRET_KEY one_row_config = None"
  "AWS_REGION one_row_config = ''us-east-1''"
  "S3_BUCKET one_row_config = ''bronze-03''"
  "S3_PREFIX one_row_config = ''final-raw/''"
  "CHUNK_ROWS one_row_config = 1"
  by (simp_all add: one_row_config_def scenario_config_def)

lemma scenario_events:
  "read_csv 2 scenario_csv =
     [Chunk scenario_header [row_on_cutoff, row_before_cutoff],
      Chunk scenario_header [row_before_cutoff, row_unparsable],
      Chunk scenario_header [row_on_cutoff, row_on_cutoff],
      Chunk scenario_header [row_with_offset]]"
  by (simp add: read_csv_def scenario_csv_def chunk_events.simps)

lemma malformed_events:
  "read_csv 2 malformed_csv =
     [Chunk scenario_header [row_on_cutoff, row_before_cutoff],
      ReadRaises (Exception ''Expected 2 fields in line 5, saw 3'')]"
  by (simp add: read_csv_def malformed_csv_def chunk_events.simps)

lemma mixed_events:
  "read_csv 2 mixed_csv = [Chunk scenario_header [row_on_cutoff, row_with_offset]]"
  "read_csv 1 mixed_csv =
     [Chunk scenario_header [row_on_cutoff], Chunk scenario_header [row_with_offset]]"
  by (simp_all add: read_csv_def mixed_csv_def chunk_events.simps)

lemma scenario_cells:
  "scenario_cell (map_of row_on_cutoff ''video_published_at'') = Some (Timestamp cutoff_date (Some 0))"
  "scenario_cell (map_of row_before_cutoff ''video_published_at'') =
     Some (Timestamp (cutoff_date - 1000000000) (Some 0))"
  "scenario_cell (map_of row_with_offset ''video_published_at'') =
     Some (Timestamp (cutoff_date - 12600000000000) (Some 19800000000000))"
  "scenario_cell (map_of row_unparsable ''video_published_at'') = None"
  by (simp_all add: scenario_cell_def row_on_cutoff_def row_before_cutoff_def
      row_with_offset_def row_unparsable_def)

lemma scenario_frames:
  assumes "to_datetime e = scenario_to_datetime"
  shows "parse_published_at e [row_on_cutoff, row_before_cutoff] =
           Inr [kept_on_cutoff,
                (row_before_cutoff, Some (Timestamp (cutoff_date - 1000000000) (Some 0)))]"
    and "parse_published_at e [row_before_cutoff, row_unparsable] =
           Inr [(row_before_cutoff, Some (Timestamp (cutoff_date - 1000000000) (Some 0))),
                (row_unparsable, None)]"
    and "parse_published_at e [row_on_cutoff, row_on_cutoff] = Inr [kept_on_cutoff, kept_on_cutoff]"
    and "parse_published_at e [row_with_offset] = Inr [kept_with_offset]"
    and "parse_published_at e [row_on_cutoff] = Inr [kept_on_cutoff]"
    and "parse_published_at e [row_with_offset, row_unparsable] =
           Inr [kept_with_offset, (row_unparsable, None)]"
    and "parse_published_at e [row_on_cutoff, row_with_offset] =
           Inl (Exception ''Can only use .dt accessor with datetimelike values'')"
  by (simp_all add: parse_published_at_def assms scenario_to_datetime_def scenario_cells
      List.map_filter_simps kept_on_cutoff_def kept_with_offset_def Let_def)

lemma scenario_keeps:
  "keep_row kept_on_cutoff" "keep_row kept_with_offset"
  "\<not> keep_row (row_before_cutoff, Some (Timestamp (cutoff_date - 1000000000) (Some 0)))"
  "\<not> keep_row (row_unparsable, None)"
  by (simp_all add: kept_on_cutoff_def kept_with_offset_def)

lemma scenario_chunks:
  assumes "to_datetime e = scenario_to_datetime"
  shows "chunk_of e [row_on_cutoff, row_before_cutoff] = [kept_on_cutoff]"
    and "chunk_of e [row_before_cutoff, row_unparsable] = []"
    and "chunk_of e [row_on_cutoff, row_on_cutoff] = [kept_on_cutoff, kept_on_cutoff]"
    and "chunk_of e [row_with_offset] = [kept_with_offset]"
    and "chunk_of e [row_on_cutoff] = [kept_on_cutoff]"
    and "chunk_of e [row_with_offset, row_unparsable] = [kept_with_offset]"
    and "chunk_of e [row_on_cutoff, row_with_offset] = []"
  by (simp_all add: chunk_of_def scenario_frames[OF assms] scenario_keeps)

lemma scenario_names:
  "temp_file_of (Suc 0) = ''part_0001.csv''"
  "temp_file_of (Suc (Suc 0)) = ''part_0002.csv''"
  "temp_file_of (Suc (Suc (Suc 0))) = ''part_0003.csv''"
  "s3_key_of scenario_config (Suc 0) = ''final-raw/part_0001.csv''"
  "s3_key_of scenario_config (Suc (Suc 0)) = ''final-raw/part_0002.csv''"
  "s3_key_of scenario_config (Suc (Suc (Suc 0))) = ''final-raw/part_0003.csv''"
  "s3_url_of scenario_config (Suc 0) = ''s3://bronze-03/final-raw/part_0001.csv''"
  "s3_url_of scenario_config (Suc (Suc 0)) = ''s3://bronze-03/final-raw/part_0002.csv''"
  "s3_url_of scenario_config (Suc (Suc (Suc 0))) = ''s3://bronze-03/final-raw/part_0003.csv''"
  by (simp_all add: s3_url_of_def s3_key_of_def temp_file_of_def format_04d_def str_nat.simps
      digit_char_def scenario_config_simps eval_nat_numeral)

lemma one_row_names:
  "s3_key_of one_row_config (Suc 0) = ''final-raw/part_0001.csv''"
  "s3_key_of one_row_config (Suc (Suc 0)) = ''final-raw/part_0002.csv''"
  "s3_url_of one_row_config (Suc 0) = ''s3://bronze-03/final-raw/part_0001.csv''"
  "s3_url_of one_row_config (Suc (Suc 0)) = ''s3://bronze-03/final-raw/part_0002.csv''"
  by (simp_all add: s3_url_of_def s3_key_of_def temp_file_of_def format_04d_def str_nat.simps
      digit_char_def one_row_config_simps eval_nat_numeral)

lemma scenario_times:
  "str_nat 0 = ''0''"
  "str_nat 1000000 = ''1000000''"
  "str_nat 2000000 = ''2000000''"
  "str_nat 3000000 = ''3000000''"
  by (simp_all add: str_nat.simps digit_char_def)

lemma scenario_header_col: "''video_published_at'' \<in> set scenario_header"
  by (simp add: scenario_header_def)

lemmas main_unfold =
  main_eq start_of_eq main_body_def validate_def initialize_s3_client_def
  verify_s3_access_def execute_pipeline_def download_kaggle_dataset_def
  extract_csv_from_zip_def extraction_failed_def endswith_csv_def process_and_upload_data_def
  for_chunks_Chunk for_chunks.simps(1,2) processing_failed_eq upload_raised_eq
  finish_def handler_def handler_message_def cleanup_files_def complete_eq add_error_eq save_eq
  scenario_config_simps one_row_config_simps scenario_events malformed_events mixed_events
  scenario_header_col scenario_names one_row_names
  scenario_times Let_def numeral_2_eq_2 numeral_3_eq_3

lemma scenario_main:
  "main scenario_env scenario_config =
     (Exit 0,
      \<lparr>start_time = 0, end_time = Some 1000000, status = ''success'', total_rows = 4,
       files_uploaded = [''s3://bronze-03/final-raw/part_0001.csv'',
                         ''s3://bronze-03/final-raw/part_0002.csv'',
                         ''s3://bronze-03/final-raw/part_0003.csv''],
       errors = [], download_size_mb = PyFloat 1\<rparr>,
      \<lparr>clock_reads = 2, chunks_read = 4,
       csv_writes = [(''part_0001.csv'', [kept_on_cutoff], None),
                     (''part_0002.csv'', [kept_on_cutoff, kept_on_cutoff], None),
                     (''part_0003.csv'', [kept_with_offset], None)],
       uploads = [(call_of scenario_env scenario_config 1 [row_on_cutoff, row_before_cutoff], None),
                  (call_of scenario_env scenario_config 2 [row_on_cutoff, row_on_cutoff], None),
                  (call_of scenario_env scenario_config 3 [row_with_offset], None)],
       removals = [(''part_0001.csv'', None), (''part_0002.csv'', None), (''part_0003.csv'', None)],
       cleanups = 1, saves = 1,
       summary_file = Some (to_dict scenario_env scenario_config
         \<lparr>start_time = 0, end_time = Some 1000000, status = ''success'', total_rows = 4,
          files_uploaded = [''s3://bronze-03/final-raw/part_0001.csv'',
                            ''s3://bronze-03/final-raw/part_0002.csv'',
                            ''s3://bronze-03/final-raw/part_0003.csv''],
          errors = [], download_size_mb = PyFloat 1\<rparr>)\<rparr>)"
  by (simp add: main_unfold scenario_env_simps scenario_chunks[OF scenario_env_simps(3)]
      scenario_frames[OF scenario_env_simps(3)] del: for_chunks.simps(3))

lemma second_upload_fails_main:
  "main second_upload_fails_env scenario_config =
     (Exit 1,
      \<lparr>start_time = 0, end_time = Some 2000000, status = ''failed'', total_rows = 3,
       files_uploaded = [''s3://bronze-03/final-raw/part_0001.csv''],
       errors = [(''1000000'', ''Upload failed for part_0002.csv: AccessDenied'')],
       download_size_mb = PyFloat 1\<rparr>,
      \<lparr>clock_reads = 3, chunks_read = 3,
       csv_writes = [(''part_0001.csv'', [kept_on_cutoff], None),
                     (''part_0002.csv'', [kept_on_cutoff, kept_on_cutoff], None)],
       uploads = [(call_of second_upload_fails_env scenario_config 1
                     [row_on_cutoff, row_before_cutoff], None),
                  (call_of second_upload_fails_env scenario_config 2
                     [row_on_cutoff, row_on_cutoff], Some (ClientError ''AccessDenied''))],
       removals = [(''part_0001.csv'', None), (''part_0002.csv'', None)],
       cleanups = 1, saves = 1,
       summary_file = Some (to_dict second_upload_fails_env scenario_config
         \<lparr>start_time = 0, end_time = Some 2000000, status = ''failed'', total_rows = 3,
          files_uploaded = [''s3://bronze-03/final-raw/part_0001.csv''],
          errors = [(''1000000'', ''Upload failed for part_0002.csv: AccessDenied'')],
          download_size_mb = PyFloat 1\<rparr>)\<rparr>)"
  by (simp add: main_unfold second_upload_fails_env_simps
      scenario_chunks[OF second_upload_fails_env_simps(3)]
      scenario_frames[OF second_upload_fails_env_simps(3)] del: for_chunks.simps(3))

lemma upload_and_remove_fail_main:
  "main upload_and_remove_fail_env scenario_config =
     (Exit 1,
      \<lparr>start_time = 0, end_time = Some 3000000, status = ''failed'', total_rows = 3,
       files_uploaded = [''s3://bronze-03/final-raw/part_0001.csv''],
       errors = [(''1000000'', ''Upload failed for part_0002.csv: AccessDenied''),
                 (''2000000'', ''Processing failed: Permission denied'')],
       download_size_mb = PyFloat 1\<rparr>,
      \<lparr>clock_reads = 4, chunks_read = 3,
       csv_writes = [(''part_0001.csv'', [kept_on_cutoff], None),
                     (''part_0002.csv'', [kept_on_cutoff, kept_on_cutoff], None)],
       uploads = [(call_of upload_and_remove_fail_env scenario_config 1
                     [row_on_cutoff, row_before_cutoff], None),
                  (call_of upload_and_remove_fail_env scenario_config 2
                     [row_on_cutoff, row_on_cutoff], Some (ClientError ''AccessDenied''))],
       removals = [(''part_0001.csv'', None),
                   (''part_0002.csv'', Some (Exception ''Permission denied''))],
       cleanups = 1, saves = 1,
       summary_file = Some (to_dict upload_and_remove_fail_env scenario_config
         \<lparr>start_time = 0, end_time = Some 3000000, status = ''failed'', total_rows = 3,
          files_uploaded = [''s3://bronze-03/final-raw/part_0001.csv''],
          errors = [(''1000000'', ''Upload failed for part_0002.csv: AccessDenied''),
                    (''2000000'', ''Processing failed: Permission denied'')],
          download_size_mb = PyFloat 1\<rparr>)\<rparr>)"
  by (simp add: main_unfold upload_and_remove_fail_env_simps
      scenario_chunks[OF upload_and_remove_fail_env_simps(3)]
      scenario_frames[OF upload_and_remove_fail_env_simps(3)] del: for_chunks.simps(3))

lemma second_write_fails_main:
  "main second_write_fails_env scenario_config =
     (Exit 1,
      \<lparr>start_time = 0, end_time = Some 2000000, status = ''failed'', total_rows = 3,
       files_uploaded = [''s3://bronze-03/final-raw/part_0001.csv''],
       errors = [(''1000000'', ''Processing failed: No space left on device'')],
       download_size_mb = PyFloat 1\<rparr>,
      \<lparr>clock_reads = 3, chunks_read = 3,
       csv_writes = [(''part_0001.csv'', [kept_on_cutoff], None),
                     (''part_0002.csv'', [kept_on_cutoff, kept_on_cutoff],
                      Some (Exception ''No space left on device''))],
       uploads = [(call_of second_write_fails_env scenario_config 1
                     [row_on_cutoff, row_before_cutoff], None)],
       removals = [(''part_0001.csv'', None)],
       cleanups = 1, saves = 1,
       summary_file = Some (to_dict second_write_fails_env scenario_config
         \<lparr>start_time = 0, end_time = Some 2000000, status = ''failed'', total_rows = 3,
          files_uploaded = [''s3://bronze-03/final-raw/part_0001.csv''],
          errors = [(''1000000'', ''Processing failed: No space left on device'')],
          download_size_mb = PyFloat 1\<rparr>)\<rparr>)"
  by (simp add: main_unfold second_write_fails_env_simps
      scenario_chunks[OF second_write_fails_env_simps(3)]
      scenario_frames[OF second_write_fails_env_simps(3)] del: for_chunks.simps(3))



lemma malformed_main:
  "main malformed_env scenario_config =
     (Exit 1,
      \<lparr>start_time = 0, end_time = Some 2000000, status = ''failed'', total_rows = 1,
       files_uploaded = [''s3://bronze-03/final-raw/part_0001.csv''],
       errors = [(''1000000'', ''Processing failed: Expected 2 fields in line 5, saw 3'')],
       download_size_mb = PyFloat 1\<rparr>,
      \<lparr>clock_reads = 3, chunks_read = 1,
       csv_writes = [(''part_0001.csv'', [kept_on_cutoff], None)],
       uploads = [(call_of malformed_env scenario_config 1 [row_on_cutoff, row_before_cutoff], None)],
       removals = [(''part_0001.csv'', None)],
       cleanups = 1, saves = 1,
       summary_file = Some (to_dict malformed_env scenario_config
         \<lparr>start_time = 0, end_time = Some 2000000, status = ''failed'', total_rows = 1,
          files_uploaded = [''s3://bronze-03/final-raw/part_0001.csv''],
          errors = [(''1000000'', ''Processing failed: Expected 2 fields in line 5, saw 3'')],
          download_size_mb = PyFloat 1\<rparr>)\<rparr>)"
  by (simp add: main_unfold malformed_env_simps
      scenario_chunks[OF malformed_env_simps(3)]
      scenario_frames[OF malformed_env_simps(3)] del: for_chunks.simps(3))

lemma stuck_files_main:
  "main stuck_files_env scenario_config =
     (Uncaught (Exception ''Operation not permitted''),
      \<lparr>start_time = 0, end_time = Some 2000000, status = ''failed'', total_rows = 0,
       files_uploaded = [],
       errors = [(''1000000'', ''Unexpected error: Permission denied'')],
       download_size_mb = PyInt 0\<rparr>,
      \<lparr>clock_reads = 3, chunks_read = 0, csv_writes = [], uploads = [], removals = [],
       cleanups = 1, saves = 0, summary_file = None\<rparr>)"
  by (simp add: main_unfold stuck_files_env_simps del: for_chunks.simps(3))

lemma full_disk_main:
  "main full_disk_env scenario_config =
     (Uncaught (Exception ''No space left on device''),
      \<lparr>start_time = 0, end_time = Some 3000000, status = ''failed'', total_rows = 4,
       files_uploaded = [''s3://bronze-03/final-raw/part_0001.csv'',
                         ''s3://bronze-03/final-raw/part_0002.csv'',
                         ''s3://bronze-03/final-raw/part_0003.csv''],
       errors = [(''2000000'', ''Unexpected error: No space left on device'')],
       download_size_mb = PyFloat 1\<rparr>,
      \<lparr>clock_reads = 4, chunks_read = 4,
       csv_writes = [(''part_0001.csv'', [kept_on_cutoff], None),
                     (''part_0002.csv'', [kept_on_cutoff, kept_on_cutoff], None),
                     (''part_0003.csv'', [kept_with_offset], None)],
       uploads = [(call_of full_disk_env scenario_config 1 [row_on_cutoff, row_before_cutoff], None),
                  (call_of full_disk_env scenario_config 2 [row_on_cutoff, row_on_cutoff], None),
                  (call_of full_disk_env scenario_config 3 [row_with_offset], None)],
       removals = [(''part_0001.csv'', None), (''part_0002.csv'', None), (''part_0003.csv'', None)],
       cleanups = 2, saves = 2, summary_file = None\<rparr>)"
  by (simp add: main_unfold full_disk_env_simps
      scenario_chunks[OF full_disk_env_simps(3)]
      scenario_frames[OF full_disk_env_simps(3)] del: for_chunks.simps(3))

section \<open>Part numbers, keys and the delivered list\<close>

lemma digit_value_digit_char: "d < 10 \<Longrightarrow> digit_value (digit_char d) = d"
proof -
  assume "d < 10"
  then have "d = 0 \<or> d = 1 \<or> d = 2 \<or> d = 3 \<or> d = 4 \<or> d = 5 \<or> d = 6 \<or> d = 7 \<or>
    d = 8 \<or> d = 9" by arith
  then show ?thesis
    by (elim disjE) (simp_all add: digit_value_def digit_char_def)
qed

lemma decimal_value_snoc: "decimal_value (ds @ [c]) = 10 * decimal_value ds + digit_value c"
  by (simp add: decimal_value_def)

lemma decimal_value_str_nat: "decimal_value (str_nat n) = n"
proof (induction n rule: str_nat.induct)
  case (1 n)
  show ?case
  proof (cases "n < 10")
    case True
    then show ?thesis
      using decimal_value_snoc[of "[]" "digit_char n"]
      by (simp add: str_nat.simps[of n] digit_value_digit_char decimal_value_def)
  next
    case False
    with 1 show ?thesis
      by (simp add: str_nat.simps[of n] decimal_value_snoc digit_value_digit_char)
  qed
qed

lemma decimal_value_zeros: "decimal_value (replicate k (CHR ''0'') @ ds) = decimal_value ds"
proof -
  have "foldl (\<lambda>a c. 10 * a + digit_value c) 0 (replicate k (CHR ''0'')) = 0"
    by (induction k) (simp_all add: digit_value_def)
  then show ?thesis by (simp add: decimal_value_def)
qed

lemma format_04d_inj: "format_04d i = format_04d j \<Longrightarrow> i = j"
proof -
  assume "format_04d i = format_04d j"
  then have "decimal_value (format_04d i) = decimal_value (format_04d j)" by simp
  then show "i = j"
    by (simp add: format_04d_def decimal_value_zeros decimal_value_str_nat)
qed

lemma s3_key_of_inj: "s3_key_of cfg i = s3_key_of cfg j \<Longrightarrow> i = j"
  by (auto simp: s3_key_of_def temp_file_of_def dest: format_04d_inj)

lemma distinct_keys: "distinct (map (s3_key_of cfg) [i..<j])"
  by (simp add: distinct_map inj_on_def) (blast dest: s3_key_of_inj)

lemma url_of_call_of [simp]: "url_of_call (call_of e cfg pn rows) = s3_url_of cfg pn"
  by (simp add: url_of_call_def s3_url_of_def)

lemma for_chunks_urls:
  assumes "for_chunks e cfg evs pn s w = (r, s', w')" and "uploads w' = uploads w @ new"
    and "csv_writes w' = csv_writes w @ wnew"
  shows "files_uploaded s' = files_uploaded s @ map url_of_call (succeeded new)"
  using assms
proof (induction evs pn s w new wnew rule: for_chunks_run_induct)
  case (ReadRaises x rest pn s w)
  from processing_failed_stop[OF this] show ?case by (simp add: succeeded_def)
next
  case (KeyError hdr rows rest pn s w)
  from processing_failed_stop[OF this(2)] show ?case by (simp add: succeeded_def)
next
  case (ParseRaised hdr rows rest x pn s w)
  from processing_failed_stop[OF this(3)] show ?case by (simp add: succeeded_def)
next
  case (WriteRaised hdr rows rest frame x pn s w)
  from processing_failed_stop[OF this(5)] show ?case by (simp add: succeeded_def)
next
  case (UploadRaised hdr rows rest frame x pn s w)
  from upload_raised_stop[of e "call_of e cfg pn rows", simplified, OF this(6)] show ?case
    by (simp add: succeeded_def)
next
  case (RemoveRaised hdr rows rest frame y pn s w)
  from processing_failed_stop[OF this(7)] show ?case by (simp add: succeeded_def)
qed (simp_all add: succeeded_def)

lemma main_deliveries:
  assumes "main e cfg = (ex, fs, fw)"
  shows "files_uploaded fs = map (s3_url_of cfg) [1..<Suc (length (succeeded (uploads fw)))] \<and>
    files_uploaded fs = map url_of_call (succeeded (uploads fw)) \<and>
    map (\<lambda>cr. call_key (fst cr)) (uploads fw) =
           map (s3_key_of cfg) [1..<Suc (length (uploads fw))] \<and>
    map (\<lambda>cr. call_file (fst cr)) (uploads fw) =
           map temp_file_of [1..<Suc (length (uploads fw))] \<and>
    (\<forall>cr \<in> set (uploads fw). call_bucket (fst cr) = S3_BUCKET cfg \<and> call_body (fst cr) \<noteq> []) \<and>
    (\<forall>cr \<in> set (butlast (uploads fw)). snd cr = None) \<and>
    total_rows fs = written_rows (csv_writes fw) \<and>
    map (\<lambda>cr. (call_file (fst cr), call_body (fst cr))) (uploads fw) =
      map (\<lambda>wr. (fst wr, fst (snd wr))) (filter (\<lambda>wr. snd (snd wr) = None) (csv_writes fw)) \<and>
    body_rows (uploads fw) \<le> written_rows (csv_writes fw)"
  using assms
proof (cases rule: main_cases)
  case NotProcessed
  then show ?thesis by (simp add: succeeded_def body_rows_def written_rows_def)
next
  case (Processed s2 w2 r s3 w3)
  note run = Processed(1)[unfolded process_and_upload_data_def]
  from Processed(2) have lg: "uploads w3 = uploads w2 @ uploads w3" by simp
  from Processed(9) have wl: "csv_writes w3 = csv_writes w2 @ csv_writes w3" by simp
  from Processed(7) have same: "files_uploaded fs = files_uploaded s3"
    "total_rows fs = total_rows s3" "uploads fw = uploads w3" "csv_writes fw = csv_writes w3"
    by (simp_all add: same_deliveries_def)
  have one: "\<And>n. [1..<1 + n] = [1..<Suc n]" by simp
  note a = for_chunks_calls[OF run lg wl, unfolded one]
  note b = for_chunks_summary[OF run lg wl, unfolded one]
  note c = for_chunks_urls[OF run lg wl]
  note d = for_chunks_writes[OF run lg wl]
  from a b c d Processed(3,4) show ?thesis
    unfolding same by (simp del: upt_Suc)
qed

lemma main_triple: "main e cfg = (outcome_of (main e cfg), summary_of (main e cfg), world_of (main e cfg))"
  by (simp add: outcome_of_def summary_of_def world_of_def)

lemma key_shape: "s3_key_of cfg i = S3_PREFIX cfg @ ''part_'' @ format_04d i @ ''.csv''"
  by (simp add: s3_key_of_def temp_file_of_def)

lemma url_shape:
  "s3_url_of cfg i = ''s3://'' @ S3_BUCKET cfg @ ''/'' @ S3_PREFIX cfg @ ''part_'' @ format_04d i @ ''.csv''"
  by (simp add: s3_url_of_def key_shape)

lemma for_chunks_triple:
  "for_chunks e cfg evs pn s w =
     (outcome_of (for_chunks e cfg evs pn s w), summary_of (for_chunks e cfg evs pn s w),
      world_of (for_chunks e cfg evs pn s w))"
  by (simp add: outcome_of_def summary_of_def world_of_def)

lemma process_triple:
  "process_and_upload_data e cfg s w =
     (outcome_of (process_and_upload_data e cfg s w), summary_of (process_and_upload_data e cfg s w),
      world_of (process_and_upload_data e cfg s w))"
  by (simp add: outcome_of_def summary_of_def world_of_def)


lemma succeeded_before_failure:
  assumes "\<forall>cr \<in> set (butlast new). snd cr = None" and "last new = (c, Some x)" and "new \<noteq> []"
  shows "succeeded new = map fst (butlast new)"
proof -
  from assms(3) have "new = butlast new @ [last new]" by simp
  then have "filter (\<lambda>cr. snd cr = None) new =
      filter (\<lambda>cr. snd cr = None) (butlast new) @ filter (\<lambda>cr. snd cr = None) [last new]"
    by (metis filter_append)
  moreover from assms(1) have "filter (\<lambda>cr. snd cr = None) (butlast new) = butlast new"
    by (simp add: filter_id_conv)
  ultimately show ?thesis using assms(2) by (simp add: succeeded_def)
qed

lemma main_failed_upload:
  assumes "(c, Some x) \<in> set (uploads (world_of (main e cfg)))"
  shows "status (summary_of (main e cfg)) = ''failed'' \<and> outcome_of (main e cfg) \<noteq> Exit 0"
proof -
  note t = main_triple[of e cfg]
  have ns: "\<not> (status (summary_of (main e cfg)) = ''success'' \<or> outcome_of (main e cfg) = Exit 0)"
    using t
  proof (cases rule: main_cases)
    case NotProcessed
    with assms show ?thesis by simp
  next
    case (Processed s2 w2 r s3 w3)
    show ?thesis
    proof
      assume "status (summary_of (main e cfg)) = ''success'' \<or> outcome_of (main e cfg) = Exit 0"
      from Processed(8)[OF this] have r: "r = Inr True" .
      note run = Processed(1)[unfolded process_and_upload_data_def]
      from Processed(2) have lg: "uploads w3 = uploads w2 @ uploads w3" by simp
      from Processed(9) have wl: "csv_writes w3 = csv_writes w2 @ csv_writes w3" by simp
      from for_chunks_success[OF run lg wl r] have "\<forall>cr \<in> set (uploads w3). snd cr = None" by simp
      moreover from Processed(7) have "uploads (world_of (main e cfg)) = uploads w3"
        by (simp add: same_deliveries_def)
      ultimately show False using assms by auto
    qed
  qed
  with main_exit(2)[OF t] show ?thesis by auto
qed


lemma second_upload_fails_process:
  "process_and_upload_data second_upload_fails_env scenario_config
     (fst (start_of second_upload_fails_env)) (snd (start_of second_upload_fails_env)) =
     (Inr False,
      \<lparr>start_time = 0, end_time = None, status = ''running'', total_rows = 3,
       files_uploaded = [''s3://bronze-03/final-raw/part_0001.csv''],
       errors = [(''1000000'', ''Upload failed for part_0002.csv: AccessDenied'')],
       download_size_mb = PyInt 0\<rparr>,
      \<lparr>clock_reads = 2, chunks_read = 3,
       csv_writes = [(''part_0001.csv'', [kept_on_cutoff], None),
                     (''part_0002.csv'', [kept_on_cutoff, kept_on_cutoff], None)],
       uploads = [(call_of second_upload_fails_env scenario_config 1
                     [row_on_cutoff, row_before_cutoff], None),
                  (call_of second_upload_fails_env scenario_config 2
                     [row_on_cutoff, row_on_cutoff], Some (ClientError ''AccessDenied''))],
       removals = [(''part_0001.csv'', None), (''part_0002.csv'', None)],
       cleanups = 0, saves = 0, summary_file = None\<rparr>)"
  by (simp add: main_unfold second_upload_fails_env_simps
      scenario_chunks[OF second_upload_fails_env_simps(3)]
      scenario_frames[OF second_upload_fails_env_simps(3)] del: for_chunks.simps(3))

lemma upload_and_remove_fail_process:
  "process_and_upload_data upload_and_remove_fail_env scenario_config
     (fst (start_of upload_and_remove_fail_env)) (snd (start_of upload_and_remove_fail_env)) =
     (Inr False,
      \<lparr>start_time = 0, end_time = None, status = ''running'', total_rows = 3,
       files_uploaded = [''s3://bronze-03/final-raw/part_0001.csv''],
       errors = [(''1000000'', ''Upload failed for part_0002.csv: AccessDenied''),
                 (''2000000'', ''Processing failed: Permission denied'')],
       download_size_mb = PyInt 0\<rparr>,
      \<lparr>clock_reads = 3, chunks_read = 3,
       csv_writes = [(''part_0001.csv'', [kept_on_cutoff], None),
                     (''part_0002.csv'', [kept_on_cutoff, kept_on_cutoff], None)],
       uploads = [(call_of upload_and_remove_fail_env scenario_config 1
                     [row_on_cutoff, row_before_cutoff], None),
                  (call_of upload_and_remove_fail_env scenario_config 2
                     [row_on_cutoff, row_on_cutoff], Some (ClientError ''AccessDenied''))],
       removals = [(''part_0001.csv'', None),
                   (''part_0002.csv'', Some (Exception ''Permission denied''))],
       cleanups = 0, saves = 0, summary_file = None\<rparr>)"
  by (simp add: main_unfold upload_and_remove_fail_env_simps
      scenario_chunks[OF upload_and_remove_fail_env_simps(3)]
      scenario_frames[OF upload_and_remove_fail_env_simps(3)] del: for_chunks.simps(3))


section \<open>The filter on a converted column\<close>






section \<open>The conversion of the scenarios\<close>







section \<open>The row filter\<close>




section \<open>Empty batches\<close>

text \<open>
  Claim C5. A batch whose filtered result is empty produces no partition: the loop
  goes on with the next batch from the same part number, the same summary (no error
  entry, no rows added) and the same logs of written files and uploads; only the count
  of chunks read moves.
\<close>

theorem empty_batch_is_skipped:
  assumes "''video_published_at'' \<in> set hdr"
    and "parse_published_at e rows = Inr frame"
    and "filter keep_row frame = []"
  shows "for_chunks e cfg (Chunk hdr rows # rest) part_number s w =
           for_chunks e cfg rest part_number s (w\<lparr>chunks_read := Suc (chunks_read w)\<rparr>)"
  using assms by (simp add: Let_def)

theorem empty_batch_is_skipped_witness:
  "''video_published_at'' \<in> set scenario_header \<and>
   parse_published_at scenario_env [row_before_cutoff, row_unparsable] =
     Inr [(row_before_cutoff, Some (Timestamp (cutoff_date - 1000000000) (Some 0))),
          (row_unparsable, None)] \<and>
   filter keep_row [(row_before_cutoff, Some (Timestamp (cutoff_date - 1000000000) (Some 0))),
                    (row_unparsable, None)] = [] \<and>
   for_chunks scenario_env scenario_config
     [Chunk scenario_header [row_before_cutoff, row_unparsable]] 1
     (fst (start_of scenario_env)) (snd (start_of scenario_env)) =
   (Inr True, fst (start_of scenario_env),
    (snd (start_of scenario_env))\<lparr>chunks_read := 1\<rparr>)"
proof -
  have h1: "''video_published_at'' \<in> set scenario_header"
    by (simp add: scenario_header_def)
  have h2: "parse_published_at scenario_env [row_before_cutoff, row_unparsable] =
     Inr [(row_before_cutoff, Some (Timestamp (cutoff_date - 1000000000) (Some 0))),
          (row_unparsable, None)]"
    by (rule scenario_frames(2)[OF scenario_env_simps(3)])
  have h3: "filter keep_row [(row_before_cutoff, Some (Timestamp (cutoff_date - 1000000000) (Some 0))),
                    (row_unparsable, None)] = []"
    by simp
  have "chunks_read (snd (start_of scenario_env)) = 0"
    by (simp add: start_of_def Summary_init_def now_def world_at_start_def)
  with h1 h2 h3 empty_batch_is_skipped[OF h1 h2 h3, of scenario_config "[]" 1
      "fst (start_of scenario_env)" "snd (start_of scenario_env)"]
  show ?thesis by simp
qed

section \<open>The summary document\<close>

text \<open>
  Claim C9. A summary that was never finalised (its end time is unset) still
  serialises to the document with all ten fields, in which \<open>end_time\<close> is null and
  \<open>duration_seconds\<close> is the integer 0.
\<close>

theorem unfinalized_to_dict:
  assumes "end_time s = None"
  shows "to_dict e cfg s =
     JDict
       [(''status'', JStr (status s)),
        (''start_time'', JStr (isoformat e (start_time s))),
        (''end_time'', JNull),
        (''duration_seconds'', JInt 0),
        (''total_rows_processed'', JInt (total_rows s)),
        (''files_uploaded'', JInt (int (length (files_uploaded s)))),
        (''file_list'', JList (map JStr (files_uploaded s))),
        (''download_size_mb'', json_of_pynum (round2 (download_size_mb s))),
        (''errors'', JList (map (\<lambda>(t, m). JDict [(''timestamp'', JStr t), (''error'', JStr m)])
                               (errors s))),
        (''configuration'', JDict
           [(''s3_bucket'', JStr (S3_BUCKET cfg)),
            (''s3_prefix'', JStr (S3_PREFIX cfg)),
            (''chunk_size'', JInt (CHUNK_ROWS cfg)),
            (''aws_region'', JStr (AWS_REGION cfg))])]"
  using assms by (simp add: to_dict_def)

theorem unfinalized_to_dict_witness:
  "end_time (fst (start_of scenario_env)) = None \<and>
   to_dict scenario_env scenario_config (fst (start_of scenario_env)) =
     JDict
       [(''status'', JStr ''running''),
        (''start_time'', JStr ''0''),
        (''end_time'', JNull),
        (''duration_seconds'', JInt 0),
        (''total_rows_processed'', JInt 0),
        (''files_uploaded'', JInt 0),
        (''file_list'', JList []),
        (''download_size_mb'', JInt 0),
        (''errors'', JList []),
        (''configuration'', JDict
           [(''s3_bucket'', JStr ''bronze-03''),
            (''s3_prefix'', JStr ''final-raw/''),
            (''chunk_size'', JInt 2),
            (''aws_region'', JStr ''us-east-1'')])]"
proof -
  have h: "end_time (fst (start_of scenario_env)) = None"
    by (simp add: start_of_def Summary_init_def now_def)
  have s: "fst (start_of scenario_env) =
     \<lparr>start_time = 0, end_time = None, status = ''running'', total_rows = 0,
      files_uploaded = [], errors = [], download_size_mb = PyInt 0\<rparr>"
    by (simp add: start_of_def Summary_init_def now_def scenario_env_def world_at_start_def)
  have i: "isoformat scenario_env 0 = ''0''"
    by (simp add: scenario_env_def str_nat.simps digit_char_def)
  show ?thesis
    using h unfinalized_to_dict[OF h, of scenario_env scenario_config] unfolding s
    by (simp add: i scenario_config_def)
qed

section \<open>Totals and chunk sizes\<close>




section \<open>Partition keys\<close>

text \<open>
  Claim C4. Within one run the keys handed to the uploads are
  \<open>{prefix}part_{n:04d}.csv\<close> for \<open>n = 1, 2, ..., k\<close> in this order, where
  \<open>k\<close> is the number of upload calls: the numbers start at 1, have no gap, and no
  key occurs twice. From any part number \<open>pn\<close> the loop numbers its calls
  \<open>pn, pn + 1, ...\<close> in the same way.
\<close>

theorem partition_keys_are_sequential:
  "map (\<lambda>cr. call_key (fst cr)) (uploads (world_of (main e cfg))) =
     map (\<lambda>i. S3_PREFIX cfg @ ''part_'' @ format_04d i @ ''.csv'')
       [1..<Suc (length (uploads (world_of (main e cfg))))] \<and>
   distinct (map (\<lambda>cr. call_key (fst cr)) (uploads (world_of (main e cfg)))) \<and>
   map (\<lambda>cr. call_key (fst cr)) (new_uploads w (world_of (for_chunks e cfg evs pn s w))) =
     map (\<lambda>i. S3_PREFIX cfg @ ''part_'' @ format_04d i @ ''.csv'')
       [pn..<pn + length (new_uploads w (world_of (for_chunks e cfg evs pn s w)))]"
proof -
  note m = main_deliveries[OF main_triple[of e cfg]]
  have k: "s3_key_of cfg = (\<lambda>i. S3_PREFIX cfg @ ''part_'' @ format_04d i @ ''.csv'')"
    by (rule ext) (rule key_shape)
  from m have keys: "map (\<lambda>cr. call_key (fst cr)) (uploads (world_of (main e cfg))) =
     map (s3_key_of cfg) [1..<Suc (length (uploads (world_of (main e cfg))))]" by blast
  then have d: "distinct (map (\<lambda>cr. call_key (fst cr)) (uploads (world_of (main e cfg))))"
    using distinct_keys[of cfg 1 "Suc (length (uploads (world_of (main e cfg))))"] by simp
  note run = for_chunks_triple[of e cfg evs pn s w]
  from for_chunks_calls[OF run for_chunks_new_logs[OF run]]
  have "map (\<lambda>cr. call_key (fst cr)) (new_uploads w (world_of (for_chunks e cfg evs pn s w))) =
     map (s3_key_of cfg) [pn..<pn + length (new_uploads w (world_of (for_chunks e cfg evs pn s w)))]"
    by blast
  with keys d show ?thesis unfolding k by blast
qed

theorem partition_keys_are_sequential_witness:
  "map (\<lambda>cr. call_key (fst cr)) (uploads (world_of (main scenario_env scenario_config))) =
     [''final-raw/part_0001.csv'', ''final-raw/part_0002.csv'', ''final-raw/part_0003.csv''] \<and>
   distinct (map (\<lambda>cr. call_key (fst cr)) (uploads (world_of (main scenario_env scenario_config)))) \<and>
   chunks_read (world_of (main scenario_env scenario_config)) = 4"
  using partition_keys_are_sequential[of scenario_env scenario_config]
  by (simp add: scenario_main world_of_def scenario_names numeral_2_eq_2 numeral_3_eq_3)

section \<open>What a delivery adds to the summary\<close>

text \<open>
  Claim C6, as stated, says that a partition whose delivery fails contributes neither
  its key nor its row count. In the run whose second upload is refused the total is 3,
  the delivered partition holds 1 row, and the refused partition holds the other 2.
\<close>

theorem failed_delivery_counts_rows_counterexample:
  "total_rows (summary_of (main second_upload_fails_env scenario_config)) \<noteq>
     delivered_rows (uploads (world_of (main second_upload_fails_env scenario_config))) \<and>
   total_rows (summary_of (main second_upload_fails_env scenario_config)) = 3 \<and>
   delivered_rows (uploads (world_of (main second_upload_fails_env scenario_config))) = 1 \<and>
   snd (last (uploads (world_of (main second_upload_fails_env scenario_config)))) =
     Some (ClientError ''AccessDenied'') \<and>
   length (call_body (fst (last (uploads (world_of (main second_upload_fails_env scenario_config)))))) = 2"
  by (simp add: second_upload_fails_main summary_of_def world_of_def delivered_rows_def
      succeeded_def scenario_chunks[OF second_upload_fails_env_simps(3)])

text \<open>
  Claim C6, amended. The delivered list grows by the URL of a partition exactly when
  its upload succeeds: after a run it holds the URLs of the successful calls, in order.
  The filtered row count is added to the total at line 259, before the partition file
  is written and before the upload is attempted: after a run the total has grown by the
  rows of every partition handed to \<open>to_csv\<close>, whether or not the write and the
  upload succeeded. The uploads are the partitions written without error, so the rows
  handed to uploads, delivered or not, never exceed the total.
\<close>

theorem rows_counted_before_delivery:
  "files_uploaded (summary_of (process_and_upload_data e cfg s w)) =
     files_uploaded s @
     map url_of_call (succeeded (new_uploads w (world_of (process_and_upload_data e cfg s w)))) \<and>
   total_rows (summary_of (process_and_upload_data e cfg s w)) =
     total_rows s + written_rows (new_writes w (world_of (process_and_upload_data e cfg s w))) \<and>
   map (\<lambda>cr. (call_file (fst cr), call_body (fst cr)))
       (new_uploads w (world_of (process_and_upload_data e cfg s w))) =
     map (\<lambda>wr. (fst wr, fst (snd wr)))
       (filter (\<lambda>wr. snd (snd wr) = None)
          (new_writes w (world_of (process_and_upload_data e cfg s w)))) \<and>
   body_rows (new_uploads w (world_of (process_and_upload_data e cfg s w))) \<le>
     written_rows (new_writes w (world_of (process_and_upload_data e cfg s w))) \<and>
   files_uploaded (summary_of (main e cfg)) =
     map url_of_call (succeeded (uploads (world_of (main e cfg)))) \<and>
   total_rows (summary_of (main e cfg)) = written_rows (csv_writes (world_of (main e cfg))) \<and>
   body_rows (uploads (world_of (main e cfg))) \<le> total_rows (summary_of (main e cfg))"
proof -
  note m = main_deliveries[OF main_triple[of e cfg]]
  note run = process_triple[of e cfg s w, unfolded process_and_upload_data_def]
  note lg = for_chunks_new_logs[OF run]
  from m have m1: "files_uploaded (summary_of (main e cfg)) =
     map url_of_call (succeeded (uploads (world_of (main e cfg))))"
    and m2: "total_rows (summary_of (main e cfg)) = written_rows (csv_writes (world_of (main e cfg)))"
    and m3': "body_rows (uploads (world_of (main e cfg))) \<le>
                written_rows (csv_writes (world_of (main e cfg)))"
    by blast+
  from m2 m3' have m3: "body_rows (uploads (world_of (main e cfg))) \<le>
      total_rows (summary_of (main e cfg))" by simp
  from for_chunks_urls[OF run lg] for_chunks_summary[OF run lg] for_chunks_writes[OF run lg]
    m1 m2 m3
  show ?thesis unfolding process_and_upload_data_def by blast
qed

theorem rows_counted_before_delivery_witness:
  "files_uploaded (summary_of (main second_write_fails_env scenario_config)) =
     [''s3://bronze-03/final-raw/part_0001.csv''] \<and>
   map url_of_call (succeeded (uploads (world_of (main second_write_fails_env scenario_config)))) =
     [''s3://bronze-03/final-raw/part_0001.csv''] \<and>
   total_rows (summary_of (main second_write_fails_env scenario_config)) = 3 \<and>
   written_rows (csv_writes (world_of (main second_write_fails_env scenario_config))) = 3 \<and>
   map (\<lambda>wr. snd (snd wr)) (csv_writes (world_of (main second_write_fails_env scenario_config))) =
     [None, Some (Exception ''No space left on device'')] \<and>
   body_rows (uploads (world_of (main second_write_fails_env scenario_config))) = 1"
  using rows_counted_before_delivery[of second_write_fails_env scenario_config]
  by (simp add: second_write_fails_main summary_of_def world_of_def succeeded_def body_rows_def
      written_rows_def scenario_names numeral_2_eq_2
      scenario_chunks[OF second_write_fails_env_simps(3)])

section \<open>The delivered list\<close>

text \<open>
  Claim C10. The delivered list of the summary holds, for the successful uploads in
  order, the text \<open>s3://{bucket}/{prefix}part_{n:04d}.csv\<close>, which is the URL of
  the call and never its bare key; the loop only ever appends texts of this shape to
  the list it starts from.
\<close>

theorem delivered_list_holds_urls:
  "files_uploaded (summary_of (main e cfg)) =
     map (\<lambda>i. ''s3://'' @ S3_BUCKET cfg @ ''/'' @ S3_PREFIX cfg @ ''part_'' @ format_04d i @ ''.csv'')
       [1..<Suc (length (succeeded (uploads (world_of (main e cfg)))))] \<and>
   files_uploaded (summary_of (main e cfg)) =
     map url_of_call (succeeded (uploads (world_of (main e cfg)))) \<and>
   url_of_call c \<noteq> call_key c \<and>
   files_uploaded (summary_of (for_chunks e cfg evs pn s w)) =
     files_uploaded s @
     map (\<lambda>i. ''s3://'' @ S3_BUCKET cfg @ ''/'' @ S3_PREFIX cfg @ ''part_'' @ format_04d i @ ''.csv'')
       [pn..<pn + length (succeeded (new_uploads w (world_of (for_chunks e cfg evs pn s w))))]"
proof -
  note m = main_deliveries[OF main_triple[of e cfg]]
  have u: "s3_url_of cfg = (\<lambda>i. ''s3://'' @ S3_BUCKET cfg @ ''/'' @ S3_PREFIX cfg @ ''part_'' @
             format_04d i @ ''.csv'')"
    by (rule ext) (rule url_shape)
  have "length (url_of_call c) \<noteq> length (call_key c)" by (simp add: url_of_call_def)
  then have ne: "url_of_call c \<noteq> call_key c" by auto
  note run = for_chunks_triple[of e cfg evs pn s w]
  from for_chunks_summary[OF run for_chunks_new_logs[OF run]]
  have "files_uploaded (summary_of (for_chunks e cfg evs pn s w)) =
     files_uploaded s @ map (s3_url_of cfg)
       [pn..<pn + length (succeeded (new_uploads w (world_of (for_chunks e cfg evs pn s w))))]"
    by blast
  with m ne show ?thesis unfolding u by blast
qed

theorem delivered_list_holds_urls_witness:
  "files_uploaded (summary_of (main second_upload_fails_env scenario_config)) =
     [''s3://bronze-03/final-raw/part_0001.csv''] \<and>
   map url_of_call (succeeded (uploads (world_of (main second_upload_fails_env scenario_config)))) =
     [''s3://bronze-03/final-raw/part_0001.csv''] \<and>
   map (\<lambda>cr. call_key (fst cr)) (uploads (world_of (main second_upload_fails_env scenario_config))) =
     [''final-raw/part_0001.csv'', ''final-raw/part_0002.csv'']"
  using delivered_list_holds_urls[of second_upload_fails_env scenario_config]
  by (simp add: second_upload_fails_main summary_of_def world_of_def succeeded_def
      scenario_names numeral_2_eq_2)

section \<open>A failed delivery\<close>

text \<open>
  Claim C2, as stated, says that a failed delivery appends one error entry. The
  handler of a \<open>ClientError\<close> removes the partition file at line 277, inside the
  outer \<open>try\<close>: when that removal raises, the handler at lines 287 to 291 appends
  a second entry. Here the second upload is refused and its partition file cannot be
  removed: the run has one failed upload and two error entries.
\<close>

theorem failed_removal_adds_second_error_counterexample:
  "map snd (uploads (world_of (process_and_upload_data upload_and_remove_fail_env scenario_config
     (fst (start_of upload_and_remove_fail_env)) (snd (start_of upload_and_remove_fail_env))))) =
     [None, Some (ClientError ''AccessDenied'')] \<and>
   errors (fst (start_of upload_and_remove_fail_env)) = [] \<and>
   outcome_of (process_and_upload_data upload_and_remove_fail_env scenario_config
     (fst (start_of upload_and_remove_fail_env)) (snd (start_of upload_and_remove_fail_env))) =
     Inr False \<and>
   errors (summary_of (process_and_upload_data upload_and_remove_fail_env scenario_config
     (fst (start_of upload_and_remove_fail_env)) (snd (start_of upload_and_remove_fail_env)))) =
     [(''1000000'', ''Upload failed for part_0002.csv: AccessDenied''),
      (''2000000'', ''Processing failed: Permission denied'')] \<and>
   errors (summary_of (main upload_and_remove_fail_env scenario_config)) =
     [(''1000000'', ''Upload failed for part_0002.csv: AccessDenied''),
      (''2000000'', ''Processing failed: Permission denied'')]"
proof -
  have "errors (fst (start_of upload_and_remove_fail_env)) = []" by (simp add: start_of_eq)
  then show ?thesis
    by (simp add: upload_and_remove_fail_process upload_and_remove_fail_main
        outcome_of_def summary_of_def world_of_def)
qed

text \<open>
  Claim C2, amended. When an upload of a run of \<open>process_and_upload_data\<close> raises
  an \<open>Exception\<close>, the function appends the error entry of that failure and
  stops. The entry is the only one, and the function returns false, when the upload
  raised something other than a \<open>ClientError\<close> or when the removal of the partition
  file at line 277 returns; when that removal raises an \<open>Exception\<close>, a second
  entry \<open>Processing failed\<close> follows and the function still returns false. In
  every case the failed call is the last of the upload log, and the result does not
  depend on what follows the chunks read so far, so nothing further is read or
  delivered. The delivered list still holds the URLs of the calls that succeeded, all
  of them before the failed one, and their number is the number of successful calls;
  the total keeps what was accumulated. \<open>complete\<close> with this result sets the
  status to failed, and \<open>main\<close> ends with status failed and a non-zero exit
  whenever an upload of its run failed; in every run of \<open>main\<close>, aborted or not,
  the length of the delivered list is the number of successful upload calls.
\<close>

theorem delivery_failure_aborts_run:
  assumes run: "process_and_upload_data e cfg s w = (r, s', w')"
    and failed: "(c, Some x) \<in> set (new_uploads w w')"
    and exc: "isinstance_Exception x"
  shows "take (Suc (length (errors s))) (errors s') =
       errors s @ [(isoformat e (utcnow e (clock_reads w)), upload_error_message c x)] \<and>
     ((\<forall>m. x \<noteq> ClientError m) \<or> os_remove e (call_file c) = None \<longrightarrow>
        r = Inr False \<and>
        errors s' =
          errors s @ [(isoformat e (utcnow e (clock_reads w)), upload_error_message c x)]) \<and>
     (\<forall>m y. x = ClientError m \<and> os_remove e (call_file c) = Some y \<and> isinstance_Exception y \<longrightarrow>
        r = Inr False \<and>
        errors s' =
          errors s @ [(isoformat e (utcnow e (clock_reads w)), upload_error_message c x),
                      (isoformat e (utcnow e (Suc (clock_reads w))),
                       ''Processing failed: '' @ str_of_exn y)]) \<and>
     r \<noteq> Inr True \<and>
     last (uploads w') = (c, Some x) \<and>
     succeeded (new_uploads w w') = map fst (butlast (new_uploads w w')) \<and>
     files_uploaded s' = files_uploaded s @ map url_of_call (succeeded (new_uploads w w')) \<and>
     length (files_uploaded s') = length (files_uploaded s) + length (succeeded (new_uploads w w')) \<and>
     total_rows s' = total_rows s + body_rows (new_uploads w w') \<and>
     (\<forall>other. for_chunks e cfg
                (take (chunks_read w' - chunks_read w) (read_csv (CHUNK_ROWS cfg) (extracted e)) @ other)
                1 s w = (r, s', w')) \<and>
     status (fst (complete e False s' w')) = ''failed'' \<and>
     length (files_uploaded (summary_of (main e cfg))) =
       length (succeeded (uploads (world_of (main e cfg)))) \<and>
     ((\<exists>c' x'. (c', Some x') \<in> set (uploads (world_of (main e cfg)))) \<longrightarrow>
        status (summary_of (main e cfg)) = ''failed'' \<and> outcome_of (main e cfg) \<noteq> Exit 0)"
proof -
  note run' = run[unfolded process_and_upload_data_def]
  note lg = for_chunks_new_logs[OF run']
  from failed have ne: "new_uploads w w' \<noteq> []" by auto
  note f = for_chunks_failed_upload[OF run' lg failed]
  from f have r: "r = failed_upload_result e c x"
    and er: "errors s' = errors s @ failed_upload_entries e c x (clock_reads w)"
    and la: "last (new_uploads w w') = (c, Some x)"
    and wok: "\<forall>wr \<in> set (new_writes w w'). snd (snd wr) = None"
    and nr: "\<forall>other. for_chunks e cfg
                (take (chunks_read w' - chunks_read w) (read_csv (CHUNK_ROWS cfg) (extracted e)) @ other)
                1 s w = (r, s', w')"
    by simp_all
  have e1: "take (Suc (length (errors s))) (errors s') =
       errors s @ [(isoformat e (utcnow e (clock_reads w)), upload_error_message c x)]"
    using exc by (cases x) (simp_all add: er failed_upload_entries_def)
  have e2: "(\<forall>m. x \<noteq> ClientError m) \<or> os_remove e (call_file c) = None \<longrightarrow>
        r = Inr False \<and>
        errors s' =
          errors s @ [(isoformat e (utcnow e (clock_reads w)), upload_error_message c x)]"
    using exc
    by (cases x)
       (simp_all add: r er failed_upload_entries_def failed_upload_result_def
          after_failed_removal_def)
  have e3: "\<forall>m y. x = ClientError m \<and> os_remove e (call_file c) = Some y \<and> isinstance_Exception y \<longrightarrow>
        r = Inr False \<and>
        errors s' =
          errors s @ [(isoformat e (utcnow e (clock_reads w)), upload_error_message c x),
                      (isoformat e (utcnow e (Suc (clock_reads w))),
                       ''Processing failed: '' @ str_of_exn y)]"
    by (simp add: r er failed_upload_entries_def failed_upload_result_def
          after_failed_removal_def)
  have e4: "r \<noteq> Inr True"
    using exc
    by (cases x) (simp_all add: r failed_upload_result_def split: option.splits)
  from lg(1) ne la have la': "last (uploads w') = (c, Some x)"
    by (metis last_appendR)
  from for_chunks_calls[OF run' lg] have bl: "\<forall>cr \<in> set (butlast (new_uploads w w')). snd cr = None"
    by blast
  note sb = succeeded_before_failure[OF bl la ne]
  from for_chunks_urls[OF run' lg]
  have fu: "files_uploaded s' = files_uploaded s @ map url_of_call (succeeded (new_uploads w w'))"
    by blast
  then have len: "length (files_uploaded s') =
      length (files_uploaded s) + length (succeeded (new_uploads w w'))" by simp
  from for_chunks_writes[OF run' lg] wok
  have "body_rows (new_uploads w w') = written_rows (new_writes w w')" by simp
  with for_chunks_summary[OF run' lg]
  have tr: "total_rows s' = total_rows s + body_rows (new_uploads w w')" by simp
  have st: "status (fst (complete e False s' w')) = ''failed''" by (simp add: complete_eq)
  from main_deliveries[OF main_triple[of e cfg]]
  have "files_uploaded (summary_of (main e cfg)) =
      map url_of_call (succeeded (uploads (world_of (main e cfg))))" by blast
  then have ml: "length (files_uploaded (summary_of (main e cfg))) =
       length (succeeded (uploads (world_of (main e cfg))))" by simp
  have mf: "(\<exists>c' x'. (c', Some x') \<in> set (uploads (world_of (main e cfg)))) \<longrightarrow>
        status (summary_of (main e cfg)) = ''failed'' \<and> outcome_of (main e cfg) \<noteq> Exit 0"
    using main_failed_upload by blast
  from e1 e2 e3 e4 la' sb fu len tr nr st ml mf show ?thesis by blast
qed

theorem delivery_failure_aborts_run_witness:
  "(call_of second_upload_fails_env scenario_config 2 [row_on_cutoff, row_on_cutoff],
      Some (ClientError ''AccessDenied''))
     \<in> set (new_uploads (snd (start_of second_upload_fails_env))
            (world_of (process_and_upload_data second_upload_fails_env scenario_config
               (fst (start_of second_upload_fails_env)) (snd (start_of second_upload_fails_env))))) \<and>
   isinstance_Exception (ClientError ''AccessDenied'') \<and>
   os_remove second_upload_fails_env
     (call_file (call_of second_upload_fails_env scenario_config 2 [row_on_cutoff, row_on_cutoff])) =
     None \<and>
   outcome_of (process_and_upload_data second_upload_fails_env scenario_config
     (fst (start_of second_upload_fails_env)) (snd (start_of second_upload_fails_env))) = Inr False \<and>
   errors (summary_of (process_and_upload_data second_upload_fails_env scenario_config
     (fst (start_of second_upload_fails_env)) (snd (start_of second_upload_fails_env)))) =
     [(''1000000'', ''Upload failed for part_0002.csv: AccessDenied'')] \<and>
   files_uploaded (summary_of (process_and_upload_data second_upload_fails_env scenario_config
     (fst (start_of second_upload_fails_env)) (snd (start_of second_upload_fails_env)))) =
     [''s3://bronze-03/final-raw/part_0001.csv''] \<and>
   chunks_read (world_of (process_and_upload_data second_upload_fails_env scenario_config
     (fst (start_of second_upload_fails_env)) (snd (start_of second_upload_fails_env)))) = 3 \<and>
   length (read_csv (CHUNK_ROWS scenario_config) (extracted second_upload_fails_env)) = 4 \<and>
   for_chunks second_upload_fails_env scenario_config
     (take 3 (read_csv (CHUNK_ROWS scenario_config) (extracted second_upload_fails_env)) @
      [ReadRaises KeyboardInterrupt]) 1
     (fst (start_of second_upload_fails_env)) (snd (start_of second_upload_fails_env)) =
   process_and_upload_data second_upload_fails_env scenario_config
     (fst (start_of second_upload_fails_env)) (snd (start_of second_upload_fails_env)) \<and>
   status (summary_of (main second_upload_fails_env scenario_config)) = ''failed'' \<and>
   length (files_uploaded (summary_of (main second_upload_fails_env scenario_config))) = 1"
proof -
  let ?s = "fst (start_of second_upload_fails_env)"
  let ?w = "snd (start_of second_upload_fails_env)"
  let ?c = "call_of second_upload_fails_env scenario_config 2 [row_on_cutoff, row_on_cutoff]"
  let ?S = "\<lparr>start_time = 0, end_time = None, status = ''running'', total_rows = 3,
       files_uploaded = [''s3://bronze-03/final-raw/part_0001.csv''],
       errors = [(''1000000'', ''Upload failed for part_0002.csv: AccessDenied'')],
       download_size_mb = PyInt 0\<rparr>"
  let ?W = "\<lparr>clock_reads = 2, chunks_read = 3,
       csv_writes = [(''part_0001.csv'', [kept_on_cutoff], None),
                     (''part_0002.csv'', [kept_on_cutoff, kept_on_cutoff], None)],
       uploads = [(call_of second_upload_fails_env scenario_config 1
                     [row_on_cutoff, row_before_cutoff], None),
                  (?c, Some (ClientError ''AccessDenied''))],
       removals = [(''part_0001.csv'', None), (''part_0002.csv'', None)],
       cleanups = 0, saves = 0, summary_file = None\<rparr>"
  have run: "process_and_upload_data second_upload_fails_env scenario_config ?s ?w =
      (Inr False, ?S, ?W)"
    by (rule second_upload_fails_process)
  have w0: "uploads ?w = []" "chunks_read ?w = 0" by (simp_all add: start_of_eq)
  have h1: "(?c, Some (ClientError ''AccessDenied'')) \<in> set (new_uploads ?w ?W)"
    by (simp add: new_uploads_def w0)
  have h2: "isinstance_Exception (ClientError ''AccessDenied'')" by simp
  have h3: "os_remove second_upload_fails_env (call_file ?c) = None"
    by (simp add: second_upload_fails_env_simps)
  note T = delivery_failure_aborts_run[OF run h1 h2]
  from T h3 have one: "errors ?S = errors ?s @
      [(isoformat second_upload_fails_env (utcnow second_upload_fails_env (clock_reads ?w)),
        upload_error_message ?c (ClientError ''AccessDenied''))]"
    by blast
  from T have "\<forall>other. for_chunks second_upload_fails_env scenario_config
       (take (chunks_read ?W - chunks_read ?w)
          (read_csv (CHUNK_ROWS scenario_config) (extracted second_upload_fails_env)) @ other)
       1 ?s ?w = (Inr False, ?S, ?W)"
    by blast
  then have "for_chunks second_upload_fails_env scenario_config
       (take (chunks_read ?W - chunks_read ?w)
          (read_csv (CHUNK_ROWS scenario_config) (extracted second_upload_fails_env)) @
        [ReadRaises KeyboardInterrupt])
       1 ?s ?w = (Inr False, ?S, ?W)"
    by (rule spec)
  then have nr: "for_chunks second_upload_fails_env scenario_config
     (take 3 (read_csv (CHUNK_ROWS scenario_config) (extracted second_upload_fails_env)) @
      [ReadRaises KeyboardInterrupt]) 1 ?s ?w =
     process_and_upload_data second_upload_fails_env scenario_config ?s ?w"
    by (simp add: w0 run)
  have len: "length (read_csv (CHUNK_ROWS scenario_config) (extracted second_upload_fails_env)) = 4"
    by (simp add: scenario_config_simps second_upload_fails_env_simps scenario_events)
  have st: "status (summary_of (main second_upload_fails_env scenario_config)) = ''failed''"
    by (simp add: second_upload_fails_main summary_of_def)
  have fl: "length (files_uploaded (summary_of (main second_upload_fails_env scenario_config))) = 1"
    by (simp add: second_upload_fails_main summary_of_def)
  have h1': "(?c, Some (ClientError ''AccessDenied''))
     \<in> set (new_uploads ?w (world_of (process_and_upload_data second_upload_fails_env
            scenario_config ?s ?w)))"
    using h1 by (simp add: run world_of_def)
  have vals: "outcome_of (process_and_upload_data second_upload_fails_env scenario_config ?s ?w)
        = Inr False"
    "errors (summary_of (process_and_upload_data second_upload_fails_env scenario_config ?s ?w)) =
       [(''1000000'', ''Upload failed for part_0002.csv: AccessDenied'')]"
    "files_uploaded (summary_of (process_and_upload_data second_upload_fails_env scenario_config
       ?s ?w)) = [''s3://bronze-03/final-raw/part_0001.csv'']"
    "chunks_read (world_of (process_and_upload_data second_upload_fails_env scenario_config
       ?s ?w)) = 3"
    by (simp_all add: run outcome_of_def summary_of_def world_of_def)
  from h1' h2 h3 one vals len nr st fl show ?thesis by blast
qed

section \<open>The summary is written\<close>

text \<open>
  Claim C7, as stated, asks that on every execution path the summary document is
  written to its file before the process ends, and that no fatal condition escapes.
  Both handlers call \<open>cleanup_files\<close> before \<open>save\<close>: when the download
  raises an \<open>OSError\<close> and the archive file cannot be removed, the second
  exception leaves \<open>main\<close> and \<open>save\<close> is never called. When the summary file
  itself cannot be written, the exception of \<open>save\<close> is raised again in the handler
  and leaves \<open>main\<close> too.
\<close>

theorem summary_lost_when_cleanup_or_save_raises_counterexample:
  "outcome_of (main stuck_files_env scenario_config) =
     Uncaught (Exception ''Operation not permitted'') \<and>
   summary_file (world_of (main stuck_files_env scenario_config)) = None \<and>
   saves (world_of (main stuck_files_env scenario_config)) = 0 \<and>
   outcome_of (main full_disk_env scenario_config) =
     Uncaught (Exception ''No space left on device'') \<and>
   summary_file (world_of (main full_disk_env scenario_config)) = None"
  by (simp add: stuck_files_main full_disk_main outcome_of_def world_of_def)

text \<open>
  Claim C7, amended. On every execution path the summary is finalised: its end time
  is set and its status is success or failed. Whenever the process ends through
  \<open>sys.exit\<close>, the summary document was written to its file before, and the exit
  code is 0 exactly when the status is success. On every path on which no call of
  \<open>cleanup_files\<close> and no write of the summary file raises (success, fatal error,
  unexpected exception or interruption of any of the steps), the process does end
  through \<open>sys.exit\<close>, with the document written.
\<close>

theorem summary_written_when_cleanup_and_save_return:
  "end_time (summary_of (main e cfg)) \<noteq> None \<and>
   (status (summary_of (main e cfg)) = ''success'' \<or>
    status (summary_of (main e cfg)) = ''failed'') \<and>
   (\<forall>c. outcome_of (main e cfg) = Exit c \<longrightarrow>
      c = (if status (summary_of (main e cfg)) = ''success'' then 0 else 1) \<and>
      summary_file (world_of (main e cfg)) = Some (to_dict e cfg (summary_of (main e cfg)))) \<and>
   ((\<forall>k. remove_files e k = None) \<and> (\<forall>k. write_file e k = None) \<longrightarrow>
      outcome_of (main e cfg) =
        Exit (if status (summary_of (main e cfg)) = ''success'' then 0 else 1) \<and>
      summary_file (world_of (main e cfg)) = Some (to_dict e cfg (summary_of (main e cfg))))"
proof -
  note t = main_triple[of e cfg]
  note x = main_exit[OF t]
  have ex: "\<And>c. outcome_of (main e cfg) = Exit c \<Longrightarrow>
      c = (if status (summary_of (main e cfg)) = ''success'' then 0 else 1) \<and>
      summary_file (world_of (main e cfg)) = Some (to_dict e cfg (summary_of (main e cfg)))"
  proof -
    fix c assume "outcome_of (main e cfg) = Exit c"
    from x(3)[OF this] show "c = (if status (summary_of (main e cfg)) = ''success'' then 0 else 1) \<and>
      summary_file (world_of (main e cfg)) = Some (to_dict e cfg (summary_of (main e cfg)))"
      by (auto simp: exits_saved_def split: if_splits)
  qed
  have quiet: "(\<forall>k. remove_files e k = None) \<and> (\<forall>k. write_file e k = None) \<Longrightarrow>
      outcome_of (main e cfg) =
        Exit (if status (summary_of (main e cfg)) = ''success'' then 0 else 1) \<and>
      summary_file (world_of (main e cfg)) = Some (to_dict e cfg (summary_of (main e cfg)))"
  proof -
    assume q: "(\<forall>k. remove_files e k = None) \<and> (\<forall>k. write_file e k = None)"
    show ?thesis
    proof (cases "outcome_of (main e cfg)")
      case (Exit c)
      with ex[OF Exit] show ?thesis by simp
    next
      case (Uncaught y)
      from x(4)[OF Uncaught] q show ?thesis
        by (simp add: raised_by_cleanup_or_save_def)
    qed
  qed
  from x(1,2) ex quiet show ?thesis by blast
qed

theorem summary_written_when_cleanup_and_save_return_witness:
  "remove_files malformed_env 0 = None \<and> write_file malformed_env 1 = None \<and>
   outcome_of (main malformed_env scenario_config) = Exit 1 \<and>
   status (summary_of (main malformed_env scenario_config)) = ''failed'' \<and>
   end_time (summary_of (main malformed_env scenario_config)) = Some 2000000 \<and>
   summary_file (world_of (main malformed_env scenario_config)) =
     Some (to_dict malformed_env scenario_config (summary_of (main malformed_env scenario_config)))"
proof -
  have q: "(\<forall>k. remove_files malformed_env k = None) \<and> (\<forall>k. write_file malformed_env k = None)"
    by (simp add: malformed_env_simps)
  note T = summary_written_when_cleanup_and_save_return[of malformed_env scenario_config]
  from T q have a: "outcome_of (main malformed_env scenario_config) =
        Exit (if status (summary_of (main malformed_env scenario_config)) = ''success'' then 0 else 1)"
    and b: "summary_file (world_of (main malformed_env scenario_config)) =
     Some (to_dict malformed_env scenario_config (summary_of (main malformed_env scenario_config)))"
    by blast+
  have st: "status (summary_of (main malformed_env scenario_config)) = ''failed''"
    and en: "end_time (summary_of (main malformed_env scenario_config)) = Some 2000000"
    by (simp_all add: malformed_main summary_of_def)
  from a st have "outcome_of (main malformed_env scenario_config) = Exit 1" by simp
  with q st en b show ?thesis by simp
qed

section \<open>A malformed row\<close>



end
